theory Spec2Isabelle
  imports Main "HOL-Library.AList"
begin

section \<open>The collaboration relay of the code editor backend\<close>

text \<open>
  A shallow embedding of \<^verbatim>\<open>backend/services/collaborationService.js\<close>, of the document
  methods of \<^verbatim>\<open>backend/models/Project.js\<close> it calls, and of the Socket.IO connection
  handler of the server that drives it.

  Conventions of the embedding:
  \<^item> a JavaScript \<^verbatim>\<open>Map\<close> is an association list with distinct keys in insertion
    order: \<^verbatim>\<open>get\<close> is \<^const>\<open>map_of\<close>, \<^verbatim>\<open>set\<close> is \<^const>\<open>AList.update\<close>
    (an existing key keeps its place, a new one goes last) and \<^verbatim>\<open>delete\<close> is
    \<^const>\<open>AList.delete\<close>;
  \<^item> a field of an event payload that may be absent is an \<open>option\<close>, \<open>None\<close> being
    JavaScript's \<^verbatim>\<open>undefined\<close>;
  \<^item> numbers that hold offsets, lengths and timestamps are \<open>int\<close>;
  \<^item> \<^verbatim>\<open>new Date()\<close> and \<^verbatim>\<open>Date.now()\<close> are the parameter \<open>now\<close> (milliseconds);
  \<^item> every handler returns the new state together with the list of messages it
    delivered, one pair (receiving socket id, event) per delivery;
  \<^item> a handler of a socket event runs as one step: the points where it awaits the
    database are not interleaved with other handlers. The callback of the save timer is
    modelled with its two awaits: it is suspended at each and resumed by a reply of the
    database, with other events in between.
\<close>

subsection \<open>JavaScript helpers\<close>

text \<open>Truthiness of a string-valued field: \<^verbatim>\<open>undefined\<close> and the empty string are falsy.\<close>

definition truthy :: "string option \<Rightarrow> bool" where
  "truthy v = (case v of None \<Rightarrow> False | Some s \<Rightarrow> s \<noteq> [])"

text \<open>A value spliced into a template literal.\<close>

definition template :: "string option \<Rightarrow> string" where
  "template v = (case v of None \<Rightarrow> ''undefined'' | Some s \<Rightarrow> s)"

text \<open>\<^verbatim>\<open>Set.prototype.add\<close>, keeping insertion order.\<close>

definition set_add :: "'a \<Rightarrow> 'a list \<Rightarrow> 'a list" where
  "set_add x xs = (if x \<in> set xs then xs else xs @ [x])"

definition map_has :: "('k \<times> 'v) list \<Rightarrow> 'k \<Rightarrow> bool" where
  "map_has m k = (map_of m k \<noteq> None)"

subsection \<open>Edit operations and the positional transform\<close>

record operation =
  op_type :: string
  op_position :: int
  op_length :: "int option"
  op_text :: "string option"

text \<open>An entry of the pending-operation queue, as \<^verbatim>\<open>handleCodeChange\<close> builds it.\<close>

record queued_operation =
  q_operation :: operation
  q_content :: "string option"
  q_userId :: "string option"
  q_timestamp :: int

type_synonym position = "int \<times> int"

text \<open>The payload of a \<^verbatim>\<open>code-change\<close> event.\<close>

record code_change_data =
  cc_projectId :: "string option"
  cc_filePath :: "string option"
  cc_operation :: operation
  cc_content :: "string option"
  cc_position :: "position option"
  cc_timestamp :: int

text \<open>\<^verbatim>\<open>op2.length || op2.text?.length || 0\<close>\<close>

definition insertedLength :: "operation \<Rightarrow> int" where
  "insertedLength op2 =
     (let textLength = (case op_text op2 of None \<Rightarrow> 0 | Some t \<Rightarrow> int (length t))
      in case op_length op2 of
           None \<Rightarrow> textLength
         | Some n \<Rightarrow> if n \<noteq> 0 then n else textLength)"

text \<open>\<^verbatim>\<open>op2.length || 1\<close>\<close>

definition deletedLength :: "operation \<Rightarrow> int" where
  "deletedLength op2 =
     (case op_length op2 of None \<Rightarrow> 1 | Some n \<Rightarrow> if n \<noteq> 0 then n else 1)"

definition transformAgainstOperation :: "operation \<Rightarrow> operation \<Rightarrow> operation" where
  "transformAgainstOperation op1 op2 =
     (if op_type op1 = ''insert'' \<and> op_type op2 = ''insert'' then
        (if op_position op1 \<ge> op_position op2
         then op1\<lparr>op_position := op_position op1 + insertedLength op2\<rparr> else op1)
      else if op_type op1 = ''delete'' \<and> op_type op2 = ''insert'' then
        (if op_position op1 > op_position op2
         then op1\<lparr>op_position := op_position op1 + insertedLength op2\<rparr> else op1)
      else if op_type op1 = ''insert'' \<and> op_type op2 = ''delete'' then
        (if op_position op1 > op_position op2
         then op1\<lparr>op_position := op_position op1 - deletedLength op2\<rparr> else op1)
      else op1)"

text \<open>
  The loop of \<^verbatim>\<open>transformOperation\<close> over the pending operations of one file: an
  entry takes part when its timestamp is strictly below the incoming one.
\<close>

fun transformLoop :: "int \<Rightarrow> operation \<Rightarrow> queued_operation list \<Rightarrow> operation" where
  "transformLoop ts transformedOp [] = transformedOp"
| "transformLoop ts transformedOp (pendingOp # pendingOps) =
     transformLoop ts
       (if q_timestamp pendingOp < ts
        then transformAgainstOperation transformedOp (q_operation pendingOp)
        else transformedOp)
       pendingOps"

definition queueKey :: "string \<Rightarrow> string option \<Rightarrow> string" where
  "queueKey projectId filePath = projectId @ '':'' @ template filePath"

definition transformOperation ::
  "(string \<times> queued_operation list) list \<Rightarrow> string \<Rightarrow> operation \<Rightarrow> code_change_data \<Rightarrow> operation"
where
  "transformOperation operationQueue projectId operation data =
     (let pendingOps =
        (case map_of operationQueue (queueKey projectId (cc_filePath data)) of
           None \<Rightarrow> [] | Some ops \<Rightarrow> ops)
      in transformLoop (cc_timestamp data) operation pendingOps)"

subsection \<open>The project store: documents and their methods\<close>

datatype js_error = Error string | TypeError string | ValidationError string

fun message :: "js_error \<Rightarrow> string" where
  "message (Error m) = m"
| "message (TypeError m) = m"
| "message (ValidationError m) = m"

record history_entry =
  h_version :: nat
  h_content :: string
  h_modifiedBy :: "string option"
  h_modifiedAt :: int

record project_file =
  f_name :: string
  f_path :: string
  f_content :: string
  f_language :: string
  f_size :: nat
  f_parent :: string
  f_lastModified :: int
  f_modifiedBy :: "string option"
  f_version :: nat
  f_history :: "history_entry list"

record collaborator =
  col_user :: string
  col_role :: string
  col_status :: string

record activity_entry =
  a_type :: string
  a_user :: "string option"
  a_filePath :: "string option"
  a_newPath :: "string option"
  a_timestamp :: int

text \<open>
  A project document. \<open>p_invalid\<close> holds the paths the document has marked invalid:
  Mongoose records a value that does not cast to the type of its path there, leaves the
  path as it was, and rejects the document when it is validated on save.
\<close>

record project =
  p_owner :: string
  p_files :: "project_file list"
  p_collaborators :: "collaborator list"
  p_activity :: "activity_entry list"
  p_invalid :: "string list"

record user =
  u_username :: string
  u_firstName :: "string option"
  u_lastName :: "string option"
  u_avatar :: "string option"

text \<open>
  The database. \<open>save_log\<close> records every \<^verbatim>\<open>project.save()\<close> in order, so that the
  number of writes is observable. A lookup by an absent id finds nothing
  (Mongoose turns \<^verbatim>\<open>findById(undefined)\<close> into a query for a null id). The ids
  looked up are taken to be well formed, and the statistics the pre-save hook recomputes
  are not part of the document model.
\<close>

record store =
  projects :: "string \<rightharpoonup> project"
  users :: "string \<rightharpoonup> user"
  save_log :: "(string \<times> project) list"

definition findProject :: "store \<Rightarrow> string option \<Rightarrow> project option" where
  "findProject db projectId = (case projectId of None \<Rightarrow> None | Some i \<Rightarrow> projects db i)"

definition findUser :: "store \<Rightarrow> string option \<Rightarrow> user option" where
  "findUser db userId = (case userId of None \<Rightarrow> None | Some i \<Rightarrow> users db i)"

text \<open>
  The cast of a string to an ObjectId (Mongoose 7): a string of 24 hexadecimal characters
  or of 12 characters casts, no other does. The model keeps the string as the id.
\<close>

definition isHex :: "char \<Rightarrow> bool" where
  "isHex c = (c \<in> set ''0123456789abcdefABCDEF'')"

definition castObjectId :: "string \<Rightarrow> string option" where
  "castObjectId v =
     (if length v = 12 \<or> (length v = 24 \<and> list_all isHex v) then Some v else None)"

text \<open>
  Validation of a document on save: no path is marked invalid, and every file has its
  required \<^verbatim>\<open>name\<close> and \<^verbatim>\<open>path\<close> (an empty string does not satisfy \<^verbatim>\<open>required\<close>).
\<close>

definition validate :: "project \<Rightarrow> js_error option" where
  "validate p =
     (if p_invalid p \<noteq> [] \<or> \<not> list_all (\<lambda>f. f_name f \<noteq> [] \<and> f_path f \<noteq> []) (p_files p)
      then Some (ValidationError ''Project validation failed'')
      else None)"

text \<open>\<^verbatim>\<open>project.save()\<close>: rejected when validation fails, written otherwise.\<close>

definition save :: "store \<Rightarrow> string \<Rightarrow> project \<Rightarrow> js_error + store" where
  "save db projectId p =
     (case validate p of
        Some e \<Rightarrow> Inl e
      | None \<Rightarrow>
          Inr (db\<lparr>projects := (projects db)(projectId \<mapsto> p),
                  save_log := save_log db @ [(projectId, p)]\<rparr>))"

text \<open>\<^verbatim>\<open>String.prototype.trim\<close> on the ASCII white space.\<close>

definition is_space :: "char \<Rightarrow> bool" where
  "is_space c = (c \<in> set [CHR 0x20, CHR 0x09, CHR 0x0A, CHR 0x0B, CHR 0x0C, CHR 0x0D])"

definition trim :: "string \<Rightarrow> string" where
  "trim s = rev (dropWhile is_space (rev (dropWhile is_space s)))"

definition orEmpty :: "string option \<Rightarrow> string" where
  "orEmpty v = (case v of None \<Rightarrow> [] | Some s \<Rightarrow> s)"

definition fullName :: "user \<Rightarrow> string" where
  "fullName u = trim (orEmpty (u_firstName u) @ '' '' @ orEmpty (u_lastName u))"

text \<open>\<^verbatim>\<open>filePath.split('/').pop()\<close>\<close>

definition lastSegment :: "string \<Rightarrow> string" where
  "lastSegment p = rev (takeWhile (\<lambda>c. c \<noteq> CHR ''/'') (rev p))"

text \<open>\<^verbatim>\<open>filePath.substring(0, filePath.lastIndexOf('/')) || '/'\<close>\<close>

definition parentOf :: "string \<Rightarrow> string" where
  "parentOf p =
     (let d = rev (drop 1 (dropWhile (\<lambda>c. c \<noteq> CHR ''/'') (rev p)))
      in if d = [] then ''/'' else d)"

definition findFile :: "project \<Rightarrow> string option \<Rightarrow> project_file option" where
  "findFile p filePath = List.find (\<lambda>f. Some (f_path f) = filePath) (p_files p)"

text \<open>Replace, respectively remove, the first element that satisfies a test.\<close>

fun updateFirst :: "('a \<Rightarrow> bool) \<Rightarrow> ('a \<Rightarrow> 'a) \<Rightarrow> 'a list \<Rightarrow> 'a list" where
  "updateFirst P g [] = []"
| "updateFirst P g (x # xs) = (if P x then g x # xs else x # updateFirst P g xs)"

fun removeFirst :: "('a \<Rightarrow> bool) \<Rightarrow> 'a list \<Rightarrow> 'a list" where
  "removeFirst P [] = []"
| "removeFirst P (x # xs) = (if P x then xs else x # removeFirst P xs)"

definition addFile ::
  "project \<Rightarrow> string option \<Rightarrow> string \<Rightarrow> int \<Rightarrow> js_error + (project \<times> project_file)"
where
  "addFile p filePath content now =
     (case findFile p filePath of
        Some existingFile \<Rightarrow> Inl (Error ''File already exists'')
      | None \<Rightarrow>
          (case filePath of
             None \<Rightarrow> Inl (TypeError ''Cannot read properties of undefined'')
           | Some fp \<Rightarrow>
               let newFile =
                 \<lparr>f_name = lastSegment fp, f_path = fp, f_content = content,
                  f_language = ''plaintext'', f_size = length content, f_parent = parentOf fp,
                  f_lastModified = now, f_modifiedBy = None, f_version = 1,
                  f_history = [\<lparr>h_version = 1, h_content = content, h_modifiedBy = None,
                                h_modifiedAt = now\<rparr>]\<rparr>
               in Inr (p\<lparr>p_files := p_files p @ [newFile]\<rparr>, newFile)))"

text \<open>
  \<^verbatim>\<open>updateFile\<close>. The schema types \<^verbatim>\<open>modifiedBy\<close>, of a file and of a history entry, as
  ObjectId: a user id that does not cast is not stored and marks the document invalid.
\<close>

definition updateFile ::
  "project \<Rightarrow> string \<Rightarrow> string option \<Rightarrow> string \<Rightarrow> int \<Rightarrow> js_error + (project \<times> project_file)"
where
  "updateFile p filePath content userId now =
     (case findFile p (Some filePath) of
        None \<Rightarrow> Inl (Error ''File not found'')
      | Some found \<Rightarrow>
          (case content of
             None \<Rightarrow> Inl (TypeError ''The string argument must be of type string'')
           | Some c \<Rightarrow>
               let file' = found\<lparr>
                     f_history := f_history found @
                       [\<lparr>h_version = f_version found + 1, h_content = f_content found,
                         h_modifiedBy = castObjectId userId, h_modifiedAt = now\<rparr>],
                     f_content := c, f_size := length c, f_version := f_version found + 1,
                     f_lastModified := now,
                     f_modifiedBy :=
                       (case castObjectId userId of
                          None \<Rightarrow> f_modifiedBy found
                        | Some i \<Rightarrow> Some i)\<rparr>
               in Inr (p\<lparr>p_files :=
                           updateFirst (\<lambda>f. f_path f = filePath) (\<lambda>f. file') (p_files p),
                         p_invalid :=
                           p_invalid p @
                           (if castObjectId userId = None
                            then [''files.history.modifiedBy'', ''files.modifiedBy'']
                            else [])\<rparr>,
                       file')))"

definition deleteFile :: "project \<Rightarrow> string option \<Rightarrow> js_error + project" where
  "deleteFile p filePath =
     (case findFile p filePath of
        None \<Rightarrow> Inl (Error ''File not found'')
      | Some found \<Rightarrow> Inr (p\<lparr>p_files := removeFirst (\<lambda>f. Some (f_path f) = filePath) (p_files p)\<rparr>))"

definition getCollaboratorRole :: "project \<Rightarrow> string option \<Rightarrow> string option" where
  "getCollaboratorRole p userId =
     map_option col_role
       (List.find (\<lambda>c. Some (col_user c) = userId \<and> col_status c = ''accepted'')
          (p_collaborators p))"

definition permissions :: "(string \<times> string list) list" where
  "permissions =
     [(''read'', [''read'', ''write'', ''admin'']),
      (''write'', [''write'', ''admin'']),
      (''delete'', [''admin'']),
      (''invite'', [''admin'']),
      (''manage_settings'', [''admin'']),
      (''manage_git'', [''admin''])]"

definition canUserAccess :: "project \<Rightarrow> string option \<Rightarrow> string \<Rightarrow> bool" where
  "canUserAccess p userId action =
     (if Some (p_owner p) = userId then True
      else case getCollaboratorRole p userId of
             None \<Rightarrow> False
           | Some role \<Rightarrow>
               if role = [] then False
               else (case map_of permissions action of
                       None \<Rightarrow> False
                     | Some roles \<Rightarrow> role \<in> set roles))"

text \<open>\<^verbatim>\<open>addToActivity\<close>; the schema types the \<^verbatim>\<open>user\<close> of an activity as ObjectId.\<close>

definition addToActivity ::
  "project \<Rightarrow> string \<Rightarrow> string option \<Rightarrow> string option \<Rightarrow> string option \<Rightarrow> int \<Rightarrow> project"
where
  "addToActivity p type userId filePath newPath now =
     (let user = (case userId of None \<Rightarrow> None | Some u \<Rightarrow> castObjectId u)
      in p\<lparr>p_activity :=
             take 100 (\<lparr>a_type = type, a_user = user, a_filePath = filePath,
                         a_newPath = newPath, a_timestamp = now\<rparr> # p_activity p),
           p_invalid :=
             p_invalid p @ (if userId \<noteq> None \<and> user = None then [''activity.user''] else [])\<rparr>)"

text \<open>\<^verbatim>\<open>renameFile\<close> of the service: the renamed file keeps its place in the list.\<close>

definition renameFile ::
  "project \<Rightarrow> string option \<Rightarrow> string option \<Rightarrow> js_error + (project \<times> project_file)"
where
  "renameFile p oldPath newPath =
     (case findFile p oldPath of
        None \<Rightarrow> Inl (Error ''File not found'')
      | Some found \<Rightarrow>
          (case findFile p newPath of
             Some existingFile \<Rightarrow> Inl (Error ''File with new name already exists'')
           | None \<Rightarrow>
               (case newPath of
                  None \<Rightarrow> Inl (TypeError ''Cannot read properties of undefined'')
                | Some np \<Rightarrow>
                    let file' = found\<lparr>f_path := np, f_name := lastSegment np, f_parent := parentOf np\<rparr>
                    in Inr (p\<lparr>p_files := updateFirst (\<lambda>f. Some (f_path f) = oldPath) (\<lambda>f. file') (p_files p)\<rparr>,
                            file'))))"

subsection \<open>Connections, sessions and outbound events\<close>

record socket =
  socket_id :: string
  socket_userId :: "string option"

record cursor =
  cur_filePath :: "string option"
  cur_position :: "position option"
  cur_selection :: "(position \<times> position) option"

text \<open>A value of the \<^verbatim>\<open>cursors\<close> map.\<close>

record cursor_entry =
  ce_filePath :: "string option"
  ce_position :: "position option"
  ce_selection :: "(position \<times> position) option"
  ce_timestamp :: int

text \<open>A value of a project's map of active users: one Session.\<close>

record session =
  ses_userId :: string
  ses_socketId :: string
  ses_username :: string
  ses_fullName :: string
  ses_avatar :: "string option"
  ses_joinedAt :: int
  ses_lastActivity :: int
  ses_cursor :: "cursor option"

record user_info =
  ui_id :: string
  ui_username :: string
  ui_fullName :: string
  ui_avatar :: "string option"

record active_user =
  au_socketId :: string
  au_user :: user_info
  au_cursor :: "cursor option"

record code_change_event =
  ev_socketId :: string
  ev_filePath :: string
  ev_operation :: operation
  ev_content :: "string option"
  ev_position :: "position option"
  ev_timestamp :: int
  ev_userId :: "string option"

datatype file_result = FileResult project_file | PathResult "string option"

record file_operation_event =
  fe_operation :: "string option"
  fe_filePath :: "string option"
  fe_newPath :: "string option"
  fe_content :: "string option"
  fe_result :: file_result
  fe_userId :: "string option"
  fe_timestamp :: int

text \<open>The outbound events, named as on the wire.\<close>

datatype event =
    collaboration_error string
  | user_joined string user_info
  | active_users "active_user list"
  | project_joined string nat
  | user_left string string
  | code_change code_change_event
  | cursor_move string "string option" "string option" "position option"
      "(position \<times> position) option"
  | file_operation file_operation_event
  | user_inactive string string

type_synonym emission = "string \<times> event"

text \<open>A pending timer of \<^verbatim>\<open>debouncedSave\<close> with the variables its callback closes over.\<close>

record save_timer =
  t_id :: nat
  t_due :: int
  t_key :: string
  t_projectId :: string
  t_filePath :: string
  t_content :: "string option"

text \<open>Where a callback of the save timer is suspended: at its first or its second await.\<close>

datatype save_stage = AwaitingFind | AwaitingSave

text \<open>
  The state the service works on: its own three maps and the lazily created
  \<^verbatim>\<open>saveTimeouts\<close>, the rooms of the Socket.IO server \<^verbatim>\<open>io\<close> it was constructed with
  (room name to member socket ids), the timers \<^verbatim>\<open>setTimeout\<close> has pending, and the
  callbacks of fired timers that await the database.
\<close>

record service =
  io_rooms :: "(string \<times> string list) list"
  activeUsers :: "(string \<times> (string \<times> session) list) list"
  cursors :: "(string \<times> cursor_entry) list"
  operationQueue :: "(string \<times> queued_operation list) list"
  saveTimeouts :: "(string \<times> nat) list option"
  pending_timers :: "save_timer list"
  next_timer_id :: nat
  suspended_saves :: "(save_timer \<times> save_stage) list"

text \<open>The constructor, on a server with no connection in any room.\<close>

definition constructor :: service where
  "constructor =
     \<lparr>io_rooms = [], activeUsers = [], cursors = [], operationQueue = [],
      saveTimeouts = None, pending_timers = [], next_timer_id = 0, suspended_saves = []\<rparr>"

subsection \<open>Socket.IO: rooms and emission\<close>

definition room_members :: "(string \<times> string list) list \<Rightarrow> string \<Rightarrow> string list" where
  "room_members rooms room = (case map_of rooms room of None \<Rightarrow> [] | Some ms \<Rightarrow> ms)"

text \<open>\<^verbatim>\<open>socket.join(room)\<close>\<close>

definition socket_join ::
  "(string \<times> string list) list \<Rightarrow> string \<Rightarrow> string \<Rightarrow> (string \<times> string list) list"
where
  "socket_join rooms sid room = AList.update room (set_add sid (room_members rooms room)) rooms"

text \<open>What the server does to the rooms when a connection closes; an emptied room goes.\<close>

definition socket_leave_all ::
  "(string \<times> string list) list \<Rightarrow> string \<Rightarrow> (string \<times> string list) list"
where
  "socket_leave_all rooms sid =
     filter (\<lambda>(room, ms). ms \<noteq> []) (map (\<lambda>(room, ms). (room, removeAll sid ms)) rooms)"

text \<open>\<^verbatim>\<open>socket.emit(ev)\<close>: to the connection itself.\<close>

definition socket_emit :: "socket \<Rightarrow> event \<Rightarrow> emission list" where
  "socket_emit socket ev = [(socket_id socket, ev)]"

text \<open>
  \<^verbatim>\<open>socket.to(room).emit(ev)\<close>: to every member of the room but the connection itself.
  No connection is a member of the room named by an absent project id.
\<close>

definition socket_to_emit ::
  "(string \<times> string list) list \<Rightarrow> socket \<Rightarrow> string option \<Rightarrow> event \<Rightarrow> emission list"
where
  "socket_to_emit rooms socket room ev =
     (case room of
        None \<Rightarrow> []
      | Some r \<Rightarrow> map (\<lambda>m. (m, ev)) (filter (\<lambda>m. m \<noteq> socket_id socket) (room_members rooms r)))"

text \<open>\<^verbatim>\<open>io.to(room).emit(ev)\<close>: to every member of the room.\<close>

definition io_to_emit :: "(string \<times> string list) list \<Rightarrow> string \<Rightarrow> event \<Rightarrow> emission list" where
  "io_to_emit rooms room ev = map (\<lambda>m. (m, ev)) (room_members rooms room)"

subsection \<open>Joining and leaving\<close>

definition projectUsersOf :: "service \<Rightarrow> string \<Rightarrow> (string \<times> session) list" where
  "projectUsersOf s projectId =
     (case map_of (activeUsers s) projectId of None \<Rightarrow> [] | Some us \<Rightarrow> us)"

definition toActiveUser :: "session \<Rightarrow> active_user" where
  "toActiveUser u =
     \<lparr>au_socketId = ses_socketId u,
      au_user = \<lparr>ui_id = ses_userId u, ui_username = ses_username u,
                 ui_fullName = ses_fullName u, ui_avatar = ses_avatar u\<rparr>,
      au_cursor = ses_cursor u\<rparr>"

definition handleUserJoin ::
  "store \<Rightarrow> int \<Rightarrow> socket \<Rightarrow> string \<Rightarrow> service \<Rightarrow> service \<times> emission list"
where
  "handleUserJoin db now socket projectId s =
     (case socket_userId socket of
        None \<Rightarrow> (s, socket_emit socket (collaboration_error ''User not authenticated''))
      | Some userId \<Rightarrow>
          if userId = [] then
            (s, socket_emit socket (collaboration_error ''User not authenticated''))
          else
            (case projects db projectId of
               None \<Rightarrow> (s, socket_emit socket (collaboration_error ''Access denied to project''))
             | Some project \<Rightarrow>
                 if \<not> canUserAccess project (Some userId) ''read'' then
                   (s, socket_emit socket (collaboration_error ''Access denied to project''))
                 else
                   let s1 = s\<lparr>io_rooms := socket_join (io_rooms s) (socket_id socket) projectId\<rparr>;
                       s2 = (if map_has (activeUsers s1) projectId then s1
                             else s1\<lparr>activeUsers := AList.update projectId [] (activeUsers s1)\<rparr>)
                   in (case users db userId of
                         None \<Rightarrow>
                           (s2, socket_emit socket (collaboration_error ''Failed to join project''))
                       | Some user \<Rightarrow>
                           let projectUsers =
                                 AList.update (socket_id socket)
                                   \<lparr>ses_userId = userId, ses_socketId = socket_id socket,
                                    ses_username = u_username user, ses_fullName = fullName user,
                                    ses_avatar = u_avatar user, ses_joinedAt = now,
                                    ses_lastActivity = now, ses_cursor = None\<rparr>
                                   (projectUsersOf s2 projectId);
                               s3 = s2\<lparr>activeUsers :=
                                         AList.update projectId projectUsers (activeUsers s2)\<rparr>;
                               activeUsersList =
                                 map toActiveUser
                                   (filter (\<lambda>u. ses_socketId u \<noteq> socket_id socket)
                                      (map snd projectUsers))
                           in (s3,
                               socket_to_emit (io_rooms s3) socket (Some projectId)
                                 (user_joined (socket_id socket)
                                    \<lparr>ui_id = userId, ui_username = u_username user,
                                     ui_fullName = fullName user, ui_avatar = u_avatar user\<rparr>)
                               @ socket_emit socket (active_users activeUsersList)
                               @ socket_emit socket
                                   (project_joined projectId (length activeUsersList + 1))))))"

text \<open>
  \<^verbatim>\<open>handleUserLeave\<close>: the loop over the projects stops (\<^verbatim>\<open>break\<close>) at the first one
  whose map holds the connection.
\<close>

definition handleUserLeave :: "socket \<Rightarrow> service \<Rightarrow> service \<times> emission list" where
  "handleUserLeave socket s =
     (case List.find (\<lambda>(projectId, projectUsers). map_has projectUsers (socket_id socket))
             (activeUsers s) of
        None \<Rightarrow> (s, [])
      | Some (projectId, projectUsers) \<Rightarrow>
          (case map_of projectUsers (socket_id socket) of
             None \<Rightarrow> (s, [])
           | Some userData \<Rightarrow>
               let projectUsers' = AList.delete (socket_id socket) projectUsers
               in (s\<lparr>activeUsers :=
                        (if projectUsers' = [] then AList.delete projectId (activeUsers s)
                         else AList.update projectId projectUsers' (activeUsers s)),
                      cursors := AList.delete (socket_id socket) (cursors s)\<rparr>,
                   socket_to_emit (io_rooms s) socket (Some projectId)
                     (user_left (socket_id socket) (ses_userId userData)))))"

text \<open>
  \<^verbatim>\<open>cleanupInactiveUsers\<close>: in every project, the sessions idle for more than five
  minutes go, each with a \<^verbatim>\<open>user-inactive\<close> event to the whole room, and a project
  whose map is empty afterwards goes as well.
\<close>

definition inactiveThreshold :: int where
  "inactiveThreshold = 5 * 60 * 1000"

definition inactive :: "int \<Rightarrow> session \<Rightarrow> bool" where
  "inactive now userData = (now - ses_lastActivity userData > inactiveThreshold)"

definition cleanupInactiveUsers :: "int \<Rightarrow> service \<Rightarrow> service \<times> emission list" where
  "cleanupInactiveUsers now s =
     (let removed =
            concat (map (\<lambda>(projectId, projectUsers).
                      map (\<lambda>(socketId, userData). (projectId, socketId, ses_userId userData))
                        (filter (\<lambda>(socketId, userData). inactive now userData) projectUsers))
                    (activeUsers s))
      in (s\<lparr>activeUsers :=
               filter (\<lambda>(projectId, projectUsers). projectUsers \<noteq> [])
                 (map (\<lambda>(projectId, projectUsers).
                         (projectId,
                          filter (\<lambda>(socketId, userData). \<not> inactive now userData) projectUsers))
                    (activeUsers s)),
             cursors :=
               filter (\<lambda>(socketId, c). socketId \<notin> set (map (\<lambda>(p, i, u). i) removed)) (cursors s)\<rparr>,
          concat (map (\<lambda>(projectId, socketId, userId).
                         io_to_emit (io_rooms s) projectId (user_inactive socketId userId))
                    removed)))"

subsection \<open>Code changes, the pending queue and the debounced save\<close>

definition queueOperation :: "string \<Rightarrow> string \<Rightarrow> queued_operation \<Rightarrow> service \<Rightarrow> service" where
  "queueOperation projectId filePath operation s =
     (let key = queueKey projectId (Some filePath);
          queue = (case map_of (operationQueue s) key of None \<Rightarrow> [] | Some q \<Rightarrow> q) @ [operation]
      in s\<lparr>operationQueue :=
             AList.update key
               (if length queue > 100 then drop (length queue - 100) queue else queue)
               (operationQueue s)\<rparr>)"

definition saveKey :: "string \<Rightarrow> string \<Rightarrow> string" where
  "saveKey projectId filePath = ''save_'' @ projectId @ ''_'' @ filePath"

text \<open>\<^verbatim>\<open>clearTimeout\<close>: a timer that has fired or was cleared is no longer pending.\<close>

definition clearTimeout :: "nat \<Rightarrow> save_timer list \<Rightarrow> save_timer list" where
  "clearTimeout tid timers = filter (\<lambda>t. t_id t \<noteq> tid) timers"

definition debounceDelay :: int where
  "debounceDelay = 2000"

definition debouncedSave ::
  "int \<Rightarrow> string \<Rightarrow> string \<Rightarrow> string option \<Rightarrow> service \<Rightarrow> service"
where
  "debouncedSave now projectId filePath content s =
     (let key = saveKey projectId filePath;
          timers =
            (case saveTimeouts s of
               None \<Rightarrow> pending_timers s
             | Some m \<Rightarrow>
                 (case map_of m key of
                    None \<Rightarrow> pending_timers s
                  | Some tid \<Rightarrow> clearTimeout tid (pending_timers s)));
          m = (case saveTimeouts s of None \<Rightarrow> [] | Some m \<Rightarrow> m);
          timer = \<lparr>t_id = next_timer_id s, t_due = now + debounceDelay, t_key = key,
                   t_projectId = projectId, t_filePath = filePath, t_content = content\<rparr>
      in s\<lparr>saveTimeouts := Some (AList.update key (next_timer_id s) m),
            pending_timers := timers @ [timer],
            next_timer_id := next_timer_id s + 1\<rparr>)"

text \<open>
  A timer fires once: it leaves the pending timers, and its callback starts, calls
  \<^verbatim>\<open>Project.findById\<close> and is suspended at that await.
\<close>

definition fire :: "service \<Rightarrow> save_timer \<Rightarrow> service" where
  "fire s t =
     s\<lparr>pending_timers := clearTimeout (t_id t) (pending_timers s),
       suspended_saves := suspended_saves s @ [(t, AwaitingFind)]\<rparr>"

text \<open>
  The clock reaches \<open>now\<close>: the pending timers that are due fire, the earliest first
  (timers due at the same instant in the order they were set).
\<close>

definition run_timers :: "int \<Rightarrow> service \<Rightarrow> service" where
  "run_timers now s =
     foldl fire s (sort_key t_due (filter (\<lambda>t. t_due t \<le> now) (pending_timers s)))"

text \<open>
  The database replies to the suspended callback of the timer \<open>tid\<close>, which resumes.
  After \<^verbatim>\<open>findById\<close>: without a project the key leaves \<^verbatim>\<open>saveTimeouts\<close>; with one,
  \<^verbatim>\<open>updateFile\<close> runs with the author \<^verbatim>\<open>'system'\<close> and \<^verbatim>\<open>project.save()\<close> is awaited.
  An exception of \<^verbatim>\<open>updateFile\<close> and a rejected save are caught and logged: nothing is
  written and the key stays in \<^verbatim>\<open>saveTimeouts\<close>. After a save that was accepted the key
  leaves \<^verbatim>\<open>saveTimeouts\<close>.
\<close>

definition resumeSaveCallback :: "int \<Rightarrow> nat \<Rightarrow> store \<times> service \<Rightarrow> store \<times> service" where
  "resumeSaveCallback now tid w =
     (case w of (db, s) \<Rightarrow>
        (case List.find (\<lambda>(t, stage). t_id t = tid) (suspended_saves s) of
           None \<Rightarrow> (db, s)
         | Some (t, stage) \<Rightarrow>
             let s' = s\<lparr>suspended_saves :=
                          removeFirst (\<lambda>(t, stage). t_id t = tid) (suspended_saves s)\<rparr>;
                 deleted = s'\<lparr>saveTimeouts :=
                               map_option (AList.delete (t_key t)) (saveTimeouts s')\<rparr>
             in (case stage of
                   AwaitingSave \<Rightarrow> (db, deleted)
                 | AwaitingFind \<Rightarrow>
                     (case projects db (t_projectId t) of
                        None \<Rightarrow> (db, deleted)
                      | Some project \<Rightarrow>
                          (case updateFile project (t_filePath t) (t_content t) ''system'' now of
                             Inl e \<Rightarrow> (db, s')
                           | Inr (project', file') \<Rightarrow>
                               (case save db (t_projectId t) project' of
                                  Inl e \<Rightarrow> (db, s')
                                | Inr db' \<Rightarrow>
                                    (db', s'\<lparr>suspended_saves :=
                                               suspended_saves s' @ [(t, AwaitingSave)]\<rparr>)))))))"

definition handleCodeChange ::
  "store \<Rightarrow> int \<Rightarrow> socket \<Rightarrow> code_change_data \<Rightarrow> service \<Rightarrow> service \<times> emission list"
where
  "handleCodeChange db now socket data s =
     (let missing =
            (s, socket_emit socket (collaboration_error ''Missing project or file information''));
          insufficient =
            (s, socket_emit socket (collaboration_error ''Insufficient permissions''))
      in case cc_projectId data of
           None \<Rightarrow> missing
         | Some projectId \<Rightarrow>
             (case cc_filePath data of
                None \<Rightarrow> missing
              | Some filePath \<Rightarrow>
                  if projectId = [] \<or> filePath = [] then missing
                  else
                    (case projects db projectId of
                       None \<Rightarrow> insufficient
                     | Some project \<Rightarrow>
                         if \<not> canUserAccess project (socket_userId socket) ''write''
                         then insufficient
                         else
                           let transformedOperation =
                                 transformOperation (operationQueue s) projectId
                                   (cc_operation data) data
                           in (debouncedSave now projectId filePath (cc_content data)
                                 (queueOperation projectId filePath
                                    \<lparr>q_operation = transformedOperation,
                                     q_content = cc_content data,
                                     q_userId = socket_userId socket,
                                     q_timestamp = cc_timestamp data\<rparr>
                                    s),
                               socket_to_emit (io_rooms s) socket (Some projectId)
                                 (code_change
                                    \<lparr>ev_socketId = socket_id socket, ev_filePath = filePath,
                                     ev_operation = transformedOperation,
                                     ev_content = cc_content data,
                                     ev_position = cc_position data,
                                     ev_timestamp = cc_timestamp data,
                                     ev_userId = socket_userId socket\<rparr>)))))"

subsection \<open>Cursor moves\<close>

record cursor_move_data =
  cm_projectId :: "string option"
  cm_filePath :: "string option"
  cm_position :: "position option"
  cm_selection :: "(position \<times> position) option"

text \<open>
  \<^verbatim>\<open>handleCursorMove\<close>. Without a payload the destructuring throws; the exception is
  caught and logged, and nothing else happens.
\<close>

definition handleCursorMove ::
  "int \<Rightarrow> socket \<Rightarrow> cursor_move_data option \<Rightarrow> service \<Rightarrow> service \<times> emission list"
where
  "handleCursorMove now socket payload s =
     (case payload of
        None \<Rightarrow> (s, [])
      | Some data \<Rightarrow>
          let s1 = s\<lparr>cursors :=
                       AList.update (socket_id socket)
                         \<lparr>ce_filePath = cm_filePath data, ce_position = cm_position data,
                          ce_selection = cm_selection data, ce_timestamp = now\<rparr>
                         (cursors s)\<rparr>;
              s2 =
                (case cm_projectId data of
                   None \<Rightarrow> s1
                 | Some projectId \<Rightarrow>
                     (case map_of (activeUsers s1) projectId of
                        None \<Rightarrow> s1
                      | Some projectUsers \<Rightarrow>
                          (case map_of projectUsers (socket_id socket) of
                             None \<Rightarrow> s1
                           | Some userData \<Rightarrow>
                               s1\<lparr>activeUsers :=
                                    AList.update projectId
                                      (AList.update (socket_id socket)
                                         (userData\<lparr>ses_lastActivity := now,
                                            ses_cursor :=
                                              Some \<lparr>cur_filePath = cm_filePath data,
                                                    cur_position = cm_position data,
                                                    cur_selection = cm_selection data\<rparr>\<rparr>)
                                         projectUsers)
                                      (activeUsers s1)\<rparr>)))
          in (s2,
              socket_to_emit (io_rooms s) socket (cm_projectId data)
                (cursor_move (socket_id socket) (socket_userId socket) (cm_filePath data)
                   (cm_position data) (cm_selection data))))"

subsection \<open>File operations\<close>

record file_operation_data =
  fo_projectId :: "string option"
  fo_operation :: "string option"
  fo_filePath :: "string option"
  fo_newPath :: "string option"
  fo_content :: "string option"

text \<open>
  The \<^verbatim>\<open>switch\<close> of \<^verbatim>\<open>handleFileOperation\<close>: the changed document, the result and
  the activity type, or the exception thrown.
\<close>

definition applyFileOperation ::
  "project \<Rightarrow> file_operation_data \<Rightarrow> int \<Rightarrow> js_error + (project \<times> file_result \<times> string)"
where
  "applyFileOperation project data now =
     (if fo_operation data = Some ''create'' then
        (case addFile project (fo_filePath data) (orEmpty (fo_content data)) now of
           Inl e \<Rightarrow> Inl e
         | Inr (project', newFile) \<Rightarrow> Inr (project', FileResult newFile, ''file_created''))
      else if fo_operation data = Some ''delete'' then
        (case deleteFile project (fo_filePath data) of
           Inl e \<Rightarrow> Inl e
         | Inr project' \<Rightarrow> Inr (project', PathResult (fo_filePath data), ''file_deleted''))
      else if fo_operation data = Some ''rename'' then
        (case renameFile project (fo_filePath data) (fo_newPath data) of
           Inl e \<Rightarrow> Inl e
         | Inr (project', renamed) \<Rightarrow> Inr (project', FileResult renamed, ''file_renamed''))
      else Inl (Error ''Unknown file operation''))"

definition handleFileOperation ::
  "store \<Rightarrow> int \<Rightarrow> socket \<Rightarrow> file_operation_data \<Rightarrow> service \<Rightarrow> (store \<times> service) \<times> emission list"
where
  "handleFileOperation db now socket data s =
     (case fo_projectId data of
        None \<Rightarrow> ((db, s), socket_emit socket (collaboration_error ''Insufficient permissions''))
      | Some projectId \<Rightarrow>
          (case projects db projectId of
             None \<Rightarrow> ((db, s), socket_emit socket (collaboration_error ''Insufficient permissions''))
           | Some project \<Rightarrow>
               if \<not> canUserAccess project (socket_userId socket) ''write'' then
                 ((db, s), socket_emit socket (collaboration_error ''Insufficient permissions''))
               else
                 (case applyFileOperation project data now of
                    Inl e \<Rightarrow>
                      ((db, s),
                       socket_emit socket
                         (collaboration_error (''File operation failed: '' @ message e)))
                  | Inr (project', result, activityType) \<Rightarrow>
                      (case save db projectId
                              (addToActivity project' activityType (socket_userId socket)
                                 (fo_filePath data)
                                 (if truthy (fo_newPath data) then fo_newPath data else None)
                                 now) of
                         Inl e \<Rightarrow>
                           ((db, s),
                            socket_emit socket
                              (collaboration_error (''File operation failed: '' @ message e)))
                       | Inr db' \<Rightarrow>
                           ((db', s),
                            io_to_emit (io_rooms s) projectId
                              (file_operation
                                 \<lparr>fe_operation = fo_operation data,
                                  fe_filePath = fo_filePath data,
                                  fe_newPath = fo_newPath data, fe_content = fo_content data,
                                  fe_result = result, fe_userId = socket_userId socket,
                                  fe_timestamp = now\<rparr>))))))"

subsection \<open>The connection handler of the server\<close>

text \<open>
  \<^verbatim>\<open>socket.on('join-project', ...)\<close>: the connection joins the room, then the
  service is asked.
\<close>

definition on_join_project ::
  "store \<Rightarrow> int \<Rightarrow> socket \<Rightarrow> string \<Rightarrow> service \<Rightarrow> service \<times> emission list"
where
  "on_join_project db now socket projectId s =
     handleUserJoin db now socket projectId
       (s\<lparr>io_rooms := socket_join (io_rooms s) (socket_id socket) projectId\<rparr>)"

text \<open>
  \<^verbatim>\<open>socket.on('disconnect', ...)\<close>: the server has taken the closed connection out of
  its rooms when the handler runs.
\<close>

definition on_disconnect :: "socket \<Rightarrow> service \<Rightarrow> service \<times> emission list" where
  "on_disconnect socket s =
     handleUserLeave socket (s\<lparr>io_rooms := socket_leave_all (io_rooms s) (socket_id socket)\<rparr>)"

text \<open>
  What the server meets: the socket events, and a reply of the database to the suspended
  callback of a save timer.
\<close>

datatype inbound =
    JoinProject socket string
  | CodeChange socket code_change_data
  | CursorMove socket "cursor_move_data option"
  | FileOperation socket file_operation_data
  | Disconnect socket
  | DatabaseReply nat

text \<open>One event at time \<open>now\<close>: the timers due by then have fired.\<close>

definition step :: "int \<Rightarrow> inbound \<Rightarrow> store \<times> service \<Rightarrow> (store \<times> service) \<times> emission list" where
  "step now ev w =
     (case (fst w, run_timers now (snd w)) of (db, s) \<Rightarrow>
        (case ev of
           JoinProject socket projectId \<Rightarrow>
             (case on_join_project db now socket projectId s of (s', out) \<Rightarrow> ((db, s'), out))
         | CodeChange socket data \<Rightarrow>
             (case handleCodeChange db now socket data s of (s', out) \<Rightarrow> ((db, s'), out))
         | CursorMove socket payload \<Rightarrow>
             (case handleCursorMove now socket payload s of (s', out) \<Rightarrow> ((db, s'), out))
         | FileOperation socket data \<Rightarrow> handleFileOperation db now socket data s
         | Disconnect socket \<Rightarrow>
             (case on_disconnect socket s of (s', out) \<Rightarrow> ((db, s'), out))
         | DatabaseReply tid \<Rightarrow> (resumeSaveCallback now tid (db, s), [])))"

fun run :: "(int \<times> inbound) list \<Rightarrow> store \<times> service \<Rightarrow> store \<times> service" where
  "run [] w = w"
| "run ((now, ev) # evs) w = run evs (fst (step now ev w))"

subsection \<open>Notions the properties are stated with\<close>

text \<open>The number of Sessions of a project's Room; an absent Room has none.\<close>

definition sessionCount :: "service \<Rightarrow> string \<Rightarrow> nat" where
  "sessionCount s projectId = length (projectUsersOf s projectId)"

text \<open>The connection holds a Session in the project's Room.\<close>

definition inRoom :: "service \<Rightarrow> string \<Rightarrow> string \<Rightarrow> bool" where
  "inRoom s projectId socketId = map_has (projectUsersOf s projectId) socketId"

text \<open>The checks of \<^verbatim>\<open>handleUserJoin\<close> all pass: the join creates a Session.\<close>

definition joinable :: "store \<Rightarrow> socket \<Rightarrow> string \<Rightarrow> bool" where
  "joinable db socket projectId =
     (case socket_userId socket of
        None \<Rightarrow> False
      | Some userId \<Rightarrow>
          userId \<noteq> [] \<and>
          (case projects db projectId of
             None \<Rightarrow> False
           | Some project \<Rightarrow> canUserAccess project (Some userId) ''read'') \<and>
          users db userId \<noteq> None)"

text \<open>The access check of \<^verbatim>\<open>handleUserJoin\<close> fails.\<close>

definition accessDenied :: "store \<Rightarrow> socket \<Rightarrow> string \<Rightarrow> bool" where
  "accessDenied db socket projectId =
     (case projects db projectId of
        None \<Rightarrow> True
      | Some project \<Rightarrow> \<not> canUserAccess project (socket_userId socket) ''read'')"

text \<open>The checks of \<^verbatim>\<open>handleCodeChange\<close> all pass: the change is broadcast.\<close>

definition changeAccepted :: "store \<Rightarrow> socket \<Rightarrow> code_change_data \<Rightarrow> bool" where
  "changeAccepted db socket data =
     (truthy (cc_projectId data) \<and> truthy (cc_filePath data) \<and>
      (case findProject db (cc_projectId data) of
         None \<Rightarrow> False
       | Some project \<Rightarrow> canUserAccess project (socket_userId socket) ''write''))"

text \<open>No entry of the directory is an empty Room.\<close>

definition noEmptyRoom :: "service \<Rightarrow> bool" where
  "noEmptyRoom s = list_all (\<lambda>(projectId, projectUsers). projectUsers \<noteq> []) (activeUsers s)"



text \<open>The keys of the directory and of every Room are distinct, as those of a \<^verbatim>\<open>Map\<close> are.\<close>

definition distinctKeys :: "service \<Rightarrow> bool" where
  "distinctKeys s =
     (distinct (map fst (activeUsers s)) \<and>
      list_all (\<lambda>(projectId, projectUsers). distinct (map fst projectUsers)) (activeUsers s))"

text \<open>The connection has no disconnect among the events.\<close>

fun staysConnected :: "string \<Rightarrow> (int \<times> inbound) list \<Rightarrow> bool" where
  "staysConnected socketId [] = True"
| "staysConnected socketId ((now, Disconnect socket) # evs) =
     (socket_id socket \<noteq> socketId \<and> staysConnected socketId evs)"
| "staysConnected socketId ((now, ev) # evs) = staysConnected socketId evs"

text \<open>
  Calls of \<^verbatim>\<open>debouncedSave\<close> for one file, each at its time and with its content;
  the timers due by the time of a call have fired before it.
\<close>

fun debounceTrace ::
  "string \<Rightarrow> string \<Rightarrow> (int \<times> string option) list \<Rightarrow> service \<Rightarrow> service"
where
  "debounceTrace projectId filePath [] s = s"
| "debounceTrace projectId filePath ((now, content) # calls) s =
     debounceTrace projectId filePath calls
       (debouncedSave now projectId filePath content (run_timers now s))"

text \<open>The pending timers with a given key.\<close>

definition pendingFor :: "string \<Rightarrow> service \<Rightarrow> save_timer list" where
  "pendingFor key s = filter (\<lambda>t. t_key t = key) (pending_timers s)"

text \<open>
  Every pending timer is the one \<^verbatim>\<open>saveTimeouts\<close> holds for its key, and no two
  pending timers share an id or a key.
\<close>

definition timersTracked :: "service \<Rightarrow> bool" where
  "timersTracked s =
     (distinct (map t_id (pending_timers s)) \<and> distinct (map t_key (pending_timers s)) \<and>
      list_all (\<lambda>t. case saveTimeouts s of
                       None \<Rightarrow> False
                     | Some m \<Rightarrow> map_of m (t_key t) = Some (t_id t) \<and> t_id t < next_timer_id s)
        (pending_timers s))"

subsection \<open>Sample data\<close>

definition sample_project :: project where
  "sample_project =
     \<lparr>p_owner = ''u1'',
      p_files =
        [\<lparr>f_name = ''a.js'', f_path = ''src/a.js'', f_content = ''let x'',
          f_language = ''plaintext'', f_size = 5, f_parent = ''src'', f_lastModified = 0,
          f_modifiedBy = None, f_version = 1,
          f_history = [\<lparr>h_version = 1, h_content = ''let x'', h_modifiedBy = None,
                        h_modifiedAt = 0\<rparr>]\<rparr>],
      p_collaborators = [\<lparr>col_user = ''u2'', col_role = ''write'', col_status = ''accepted''\<rparr>],
      p_activity = [], p_invalid = []\<rparr>"

definition sample_user :: "string \<Rightarrow> user" where
  "sample_user n =
     \<lparr>u_username = n, u_firstName = Some ''Ada'', u_lastName = None, u_avatar = None\<rparr>"

text \<open>
  Two projects \<open>pA\<close> and \<open>pB\<close>, owned by \<open>u1\<close> with \<open>u2\<close> as a writer; \<open>u3\<close> has a
  user record and no access; \<open>u4\<close> owns project \<open>pC\<close> and has no user record.
\<close>

definition sample_db :: store where
  "sample_db =
     \<lparr>projects = [''pA'' \<mapsto> sample_project, ''pB'' \<mapsto> sample_project,
                  ''pC'' \<mapsto> sample_project\<lparr>p_owner := ''u4''\<rparr>],
      users = [''u1'' \<mapsto> sample_user ''ada'', ''u2'' \<mapsto> sample_user ''bob'',
               ''u3'' \<mapsto> sample_user ''eve''],
      save_log = []\<rparr>"

definition sock :: "string \<Rightarrow> string \<Rightarrow> socket" where
  "sock i u = \<lparr>socket_id = i, socket_userId = Some u\<rparr>"

text \<open>
  The state after connection \<open>s1\<close> of user \<open>u1\<close> and then connection \<open>s2\<close> of user
  \<open>u2\<close> have joined project \<open>pA\<close> on a fresh service.
\<close>

definition sample_joined :: service where
  "sample_joined = fst (on_join_project sample_db 1 (sock ''s1'' ''u1'') ''pA'' constructor)"

definition sample_state :: service where
  "sample_state = fst (on_join_project sample_db 2 (sock ''s2'' ''u2'') ''pA'' sample_joined)"

definition sample_insert :: "int \<Rightarrow> int \<Rightarrow> operation" where
  "sample_insert pos len =
     \<lparr>op_type = ''insert'', op_position = pos, op_length = Some len, op_text = None\<rparr>"

definition sample_delete :: "int \<Rightarrow> int \<Rightarrow> operation" where
  "sample_delete pos len =
     \<lparr>op_type = ''delete'', op_position = pos, op_length = Some len, op_text = None\<rparr>"

definition sample_queued :: "operation \<Rightarrow> int \<Rightarrow> queued_operation" where
  "sample_queued operation ts =
     \<lparr>q_operation = operation, q_content = None, q_userId = Some ''u1'', q_timestamp = ts\<rparr>"

definition sample_change :: "operation \<Rightarrow> int \<Rightarrow> code_change_data" where
  "sample_change operation ts =
     \<lparr>cc_projectId = Some ''pA'', cc_filePath = Some ''src/a.js'', cc_operation = operation,
      cc_content = Some ''let y'', cc_position = None, cc_timestamp = ts\<rparr>"

definition sample_move :: "string option \<Rightarrow> string option \<Rightarrow> cursor_move_data" where
  "sample_move projectId filePath =
     \<lparr>cm_projectId = projectId, cm_filePath = filePath, cm_position = Some (1, 2),
      cm_selection = None\<rparr>"

definition sample_create :: "string option \<Rightarrow> string option \<Rightarrow> file_operation_data" where
  "sample_create projectId filePath =
     \<lparr>fo_projectId = projectId, fo_operation = Some ''create'', fo_filePath = filePath,
      fo_newPath = None, fo_content = Some ''x''\<rparr>"

section \<open>Properties\<close>

lemmas sample_defs = sample_db_def sample_project_def sample_user_def sock_def
  sample_insert_def sample_delete_def sample_queued_def sample_change_def
  sample_move_def sample_create_def constructor_def

subsection \<open>The sample states, evaluated\<close>

lemmas join_defs = on_join_project_def handleUserJoin_def canUserAccess_def
  getCollaboratorRole_def permissions_def map_has_def socket_join_def room_members_def set_add_def
  socket_emit_def socket_to_emit_def projectUsersOf_def toActiveUser_def fullName_def trim_def
  orEmpty_def is_space_def

lemma sample_joined_eval:
  "sample_joined =
     \<lparr>io_rooms = [(''pA'', [''s1''])],
      activeUsers =
        [(''pA'',
          [(''s1'', \<lparr>ses_userId = ''u1'', ses_socketId = ''s1'', ses_username = ''ada'',
                     ses_fullName = ''Ada'', ses_avatar = None, ses_joinedAt = 1,
                     ses_lastActivity = 1, ses_cursor = None\<rparr>)])],
      cursors = [], operationQueue = [], saveTimeouts = None, pending_timers = [],
      next_timer_id = 0, suspended_saves = []\<rparr>"
  by (simp add: sample_joined_def join_defs sample_defs)

lemma sample_state_eval:
  "sample_state =
     \<lparr>io_rooms = [(''pA'', [''s1'', ''s2''])],
      activeUsers =
        [(''pA'',
          [(''s1'', \<lparr>ses_userId = ''u1'', ses_socketId = ''s1'', ses_username = ''ada'',
                     ses_fullName = ''Ada'', ses_avatar = None, ses_joinedAt = 1,
                     ses_lastActivity = 1, ses_cursor = None\<rparr>),
           (''s2'', \<lparr>ses_userId = ''u2'', ses_socketId = ''s2'', ses_username = ''bob'',
                     ses_fullName = ''Ada'', ses_avatar = None, ses_joinedAt = 2,
                     ses_lastActivity = 2, ses_cursor = None\<rparr>)])],
      cursors = [], operationQueue = [], saveTimeouts = None, pending_timers = [],
      next_timer_id = 0, suspended_saves = []\<rparr>"
  unfolding sample_state_def sample_joined_eval
  by (simp add: join_defs sample_defs)

lemma denied_eval:
  "on_join_project sample_db 3 (sock ''s3'' ''u3'') ''pA'' sample_state =
     (sample_state\<lparr>io_rooms := [(''pA'', [''s1'', ''s2'', ''s3''])]\<rparr>,
      [(''s3'', collaboration_error ''Access denied to project'')])"
  unfolding sample_state_eval
  by (simp add: join_defs sample_defs)

subsection \<open>The positional transform\<close>




text \<open>The delete-against-insert rule of the code: the shift needs a strictly smaller position.\<close>

lemma delete_against_insert:
  assumes "op_type op1 = ''delete''" and "op_type op2 = ''insert''"
  shows "transformAgainstOperation op1 op2 =
           (if op_position op2 < op_position op1
            then op1\<lparr>op_position := op_position op1 + insertedLength op2\<rparr> else op1)"
  using assms by (simp add: transformAgainstOperation_def)

text \<open>
  C1. The claim: an incoming delete is shifted forward by the length of a prior insert
  exactly when the prior insert position is less than or equal to the position of the
  delete, so in particular when both positions are equal. The code compares with a strict
  \<^verbatim>\<open>>\<close> in the delete-against-insert branch: with a prior insert of length 3 at offset 5
  (timestamp 1) queued for the file, an incoming delete at offset 5 (timestamp 2) keeps
  offset 5, where the claim asks for 8; the same delete at offset 6 is shifted to 9.
\<close>

theorem C1_delete_at_insert_offset_unshifted:
  "op_position
     (transformOperation [(''pA:src/a.js'', [sample_queued (sample_insert 5 3) 1])] ''pA''
        (sample_delete 5 1) (sample_change (sample_delete 5 1) 2)) = 5
   \<and> op_position
     (transformOperation [(''pA:src/a.js'', [sample_queued (sample_insert 5 3) 1])] ''pA''
        (sample_delete 6 1) (sample_change (sample_delete 6 1) 2)) = 9"
  by (simp add: transformOperation_def queueKey_def template_def sample_defs
      transformAgainstOperation_def insertedLength_def)



subsection \<open>The session directory\<close>

lemma projectUsersOf_update:
  "projectUsersOf (s\<lparr>activeUsers := AList.update p us (activeUsers s)\<rparr>) q =
     (if q = p then us else projectUsersOf s q)"
  by (simp add: projectUsersOf_def update_conv')

lemma handleUserJoin_joinable:
  assumes "joinable db socket P"
  obtains sess where
    "activeUsers (fst (handleUserJoin db now socket P s)) =
       AList.update P (AList.update (socket_id socket) sess (projectUsersOf s P)) (activeUsers s)"
proof -
  from assms obtain userId project user where
    u: "socket_userId socket = Some userId" "userId \<noteq> []" "projects db P = Some project"
       "canUserAccess project (Some userId) ''read''" "users db userId = Some user"
    by (auto simp: joinable_def split: option.splits)
  show ?thesis
  proof (cases "map_has (activeUsers s) P")
    case True
    then show ?thesis using u
      by (intro that) (simp add: handleUserJoin_def Let_def projectUsersOf_def)
  next
    case False
    then have "map_of (activeUsers s) P = None" by (simp add: map_has_def)
    then show ?thesis using u False
      by (intro that) (simp add: handleUserJoin_def Let_def projectUsersOf_def update_conv')
  qed
qed

lemma distinctKeys_update:
  assumes "distinctKeys s" "distinct (map fst us)"
  shows "distinctKeys (s\<lparr>activeUsers := AList.update p us (activeUsers s)\<rparr>)"
proof -
  have "list_all (\<lambda>(projectId, projectUsers). distinct (map fst projectUsers)) (AList.update p us al)"
    if "list_all (\<lambda>(projectId, projectUsers). distinct (map fst projectUsers)) al" for al
    using that assms(2) by (induction al) auto
  then show ?thesis using assms by (simp add: distinctKeys_def distinct_update)
qed

lemma distinctKeys_room:
  assumes "distinctKeys s"
  shows "distinct (map fst (projectUsersOf s p))"
proof (cases "map_of (activeUsers s) p")
  case None
  then show ?thesis by (simp add: projectUsersOf_def)
next
  case (Some us)
  then have "(p, us) \<in> set (activeUsers s)" by (rule map_of_SomeD)
  then show ?thesis using assms Some
    by (auto simp: distinctKeys_def projectUsersOf_def list_all_iff)
qed

lemma join_distinctKeys:
  assumes "joinable db socket P" "distinctKeys s"
  shows "distinctKeys (fst (handleUserJoin db now socket P s))"
proof -
  obtain sess where a: "activeUsers (fst (handleUserJoin db now socket P s)) =
       AList.update P (AList.update (socket_id socket) sess (projectUsersOf s P)) (activeUsers s)"
    using handleUserJoin_joinable[OF assms(1)] by blast
  have "distinct (map fst (AList.update (socket_id socket) sess (projectUsersOf s P)))"
    using distinctKeys_room[OF assms(2)] by (simp add: distinct_update)
  from distinctKeys_update[OF assms(2) this, of P] show ?thesis
    using a by (simp add: distinctKeys_def)
qed

lemma find_first_entry:
  assumes "distinct (map fst al)" "List.find (\<lambda>(p, us). Q us) al = Some (p0, us0)"
  shows "map_of al p0 = Some us0 \<and> Q us0"
proof -
  from assms(2) have "(p0, us0) \<in> set al \<and> Q us0"
    by (auto simp: find_Some_iff in_set_conv_nth)
  then show ?thesis using assms(1) by simp
qed

lemma leave_single_room:
  assumes dk: "distinctKeys s" and only: "\<forall>p. inRoom s p (socket_id socket) \<longrightarrow> p = A"
  shows "\<not> inRoom (fst (handleUserLeave socket s)) p (socket_id socket)"
proof (cases "List.find (\<lambda>(projectId, projectUsers). map_has projectUsers (socket_id socket)) (activeUsers s)")
  case None
  then have none: "\<forall>(q, us) \<in> set (activeUsers s). \<not> map_has us (socket_id socket)"
    by (auto simp: find_None_iff)
  have "\<not> inRoom s p (socket_id socket)"
  proof (cases "map_of (activeUsers s) p")
    case None
    then show ?thesis by (simp add: inRoom_def projectUsersOf_def map_has_def)
  next
    case (Some us)
    then have "(p, us) \<in> set (activeUsers s)" by (rule map_of_SomeD)
    then show ?thesis using none Some by (auto simp: inRoom_def projectUsersOf_def)
  qed
  then show ?thesis using None by (simp add: handleUserLeave_def)
next
  case (Some e)
  obtain p0 us0 where e: "e = (p0, us0)" by (cases e)
  from dk have d: "distinct (map fst (activeUsers s))" by (simp add: distinctKeys_def)
  from find_first_entry[OF d, of "\<lambda>us. map_has us (socket_id socket)" p0 us0] Some e
  have m: "map_of (activeUsers s) p0 = Some us0" and h: "map_has us0 (socket_id socket)"
    by simp_all
  then have "inRoom s p0 (socket_id socket)" by (simp add: inRoom_def projectUsersOf_def)
  with only have p0: "p0 = A" by blast
  from h obtain userData where ud: "map_of us0 (socket_id socket) = Some userData"
    by (auto simp: map_has_def)
  show ?thesis
  proof (cases "p = A")
    case True
    then show ?thesis using Some e ud p0
      by (simp add: handleUserLeave_def Let_def inRoom_def projectUsersOf_def map_has_def
          delete_conv' update_conv')
  next
    case False
    with only have "\<not> inRoom s p (socket_id socket)" by blast
    then show ?thesis using Some e ud p0 False
      by (simp add: handleUserLeave_def Let_def inRoom_def projectUsersOf_def map_has_def
          delete_conv' update_conv')
  qed
qed

text \<open>Leave and the inactivity sweep leave no empty Room behind.\<close>

lemma leave_no_empty_room:
  assumes "noEmptyRoom s"
  shows "noEmptyRoom (fst (handleUserLeave socket s))"
proof -
  have upd: "list_all (\<lambda>(projectId, projectUsers). projectUsers \<noteq> []) (AList.update p us al)"
    if "list_all (\<lambda>(projectId, projectUsers). projectUsers \<noteq> []) al" "us \<noteq> []" for p us al
    using that by (induction al) auto
  have del: "list_all (\<lambda>(projectId, projectUsers). projectUsers \<noteq> []) (AList.delete p al)"
    if "list_all (\<lambda>(projectId, projectUsers). projectUsers \<noteq> []) al" for p al
    using that by (induction al) auto
  show ?thesis using assms upd del
    by (auto simp: noEmptyRoom_def handleUserLeave_def Let_def split: option.splits)
qed

lemma cleanup_no_empty_room: "noEmptyRoom (fst (cleanupInactiveUsers now s))"
  by (auto simp: noEmptyRoom_def cleanupInactiveUsers_def Let_def list_all_iff)

text \<open>A join that passes the access check and then finds no user record creates the entry.\<close>

lemma join_lookup_failure:
  assumes "socket_userId socket = Some userId" and "userId \<noteq> []"
    and "projects db P = Some project" and "canUserAccess project (Some userId) ''read''"
    and "users db userId = None" and "\<not> map_has (activeUsers s) P"
  shows "map_of (activeUsers (fst (handleUserJoin db now socket P s))) P = Some []"
  using assms by (simp add: handleUserJoin_def Let_def update_conv')

text \<open>
  C4. The claim: in every reachable state a directory entry exists for a project exactly
  when it holds at least one Session, also after a Join whose user lookup fails. In the
  code the entry is created before the lookup: user \<open>u4\<close> owns project \<open>pC\<close> and has no
  user record, so the join of connection \<open>s1\<close> on a fresh service ends with the error
  event and leaves the entry of \<open>pC\<close> in the directory with no Session in it.
\<close>

theorem C4_failed_lookup_leaves_empty_room:
  "activeUsers (fst (handleUserJoin sample_db 7 (sock ''s1'' ''u4'') ''pC'' constructor)) =
     [(''pC'', [])]
   \<and> map_has (activeUsers (fst (handleUserJoin sample_db 7 (sock ''s1'' ''u4'') ''pC'' constructor)))
        ''pC''
   \<and> sessionCount (fst (handleUserJoin sample_db 7 (sock ''s1'' ''u4'') ''pC'' constructor)) ''pC'' = 0
   \<and> snd (handleUserJoin sample_db 7 (sock ''s1'' ''u4'') ''pC'' constructor) =
       [(''s1'', collaboration_error ''Failed to join project'')]"
  by (simp add: join_defs sample_defs sessionCount_def)

text \<open>
  C5, as stated, fails: connection \<open>s1\<close>, a member of the Room of \<open>pA\<close>, joins \<open>pB\<close> and
  is then a member of both Rooms; a Leave takes it out of \<open>pA\<close> only.
\<close>
theorem C5_counterexample:
  "inRoom (fst (handleUserJoin sample_db 5 (sock ''s1'' ''u1'') ''pB'' sample_joined)) ''pA'' ''s1''
   \<and> inRoom (fst (handleUserJoin sample_db 5 (sock ''s1'' ''u1'') ''pB'' sample_joined)) ''pB'' ''s1''
   \<and> inRoom (fst (handleUserLeave (sock ''s1'' ''u1'')
               (fst (handleUserJoin sample_db 5 (sock ''s1'' ''u1'') ''pB'' sample_joined))))
        ''pB'' ''s1''"
  unfolding sample_joined_eval
  by (simp add: inRoom_def handleUserLeave_def join_defs sample_defs Let_def)

text \<open>
  C5, amended. A join that passes its checks adds the connection to the Room of the
  project joined and leaves the Sessions of every other Room, its own there included, as
  they were, so a connection can be in several Rooms; within one Room a connection id
  occurs at most once. A Leave of a connection that is in one Room only removes it from
  the directory altogether.
\<close>
theorem C5_amended:
  "(joinable db socket B \<and> A \<noteq> B \<and> distinctKeys s \<longrightarrow>
      projectUsersOf (fst (handleUserJoin db now socket B s)) A = projectUsersOf s A \<and>
      inRoom (fst (handleUserJoin db now socket B s)) B (socket_id socket) \<and>
      distinctKeys (fst (handleUserJoin db now socket B s)))
   \<and> (distinctKeys s \<and> (\<forall>p. inRoom s p (socket_id socket) \<longrightarrow> p = A) \<longrightarrow>
        (\<forall>p. \<not> inRoom (fst (handleUserLeave socket s)) p (socket_id socket)))"
proof (intro conjI impI)
  assume h: "joinable db socket B \<and> A \<noteq> B \<and> distinctKeys s"
  then obtain sess where a: "activeUsers (fst (handleUserJoin db now socket B s)) =
       AList.update B (AList.update (socket_id socket) sess (projectUsersOf s B)) (activeUsers s)"
    using handleUserJoin_joinable[of db socket B] by blast
  show "projectUsersOf (fst (handleUserJoin db now socket B s)) A = projectUsersOf s A"
    using a h by (simp add: projectUsersOf_def update_conv')
  show "inRoom (fst (handleUserJoin db now socket B s)) B (socket_id socket)"
    using a by (simp add: inRoom_def projectUsersOf_def update_conv' map_has_def)
  show "distinctKeys (fst (handleUserJoin db now socket B s))"
    using h join_distinctKeys by blast
next
  assume "distinctKeys s \<and> (\<forall>p. inRoom s p (socket_id socket) \<longrightarrow> p = A)"
  then show "\<forall>p. \<not> inRoom (fst (handleUserLeave socket s)) p (socket_id socket)"
    using leave_single_room by blast
qed

text \<open>C5, amended, at the sample state in which \<open>s1\<close> is in the Room of \<open>pA\<close> only.\<close>

theorem C5_witness:
  "projectUsersOf (fst (handleUserJoin sample_db 5 (sock ''s1'' ''u1'') ''pB'' sample_joined)) ''pA''
     = projectUsersOf sample_joined ''pA''
   \<and> inRoom (fst (handleUserJoin sample_db 5 (sock ''s1'' ''u1'') ''pB'' sample_joined)) ''pB'' ''s1''
   \<and> (\<forall>p. \<not> inRoom (fst (handleUserLeave (sock ''s1'' ''u1'') sample_joined)) p ''s1'')"
proof -
  have j: "joinable sample_db (sock ''s1'' ''u1'') ''pB''"
    by (simp add: joinable_def sample_defs canUserAccess_def)
  have d: "distinctKeys sample_joined"
    by (simp add: sample_joined_eval distinctKeys_def)
  have o: "\<forall>p. inRoom sample_joined p (socket_id (sock ''s1'' ''u1'')) \<longrightarrow> p = ''pA''"
    by (simp add: sample_joined_eval inRoom_def projectUsersOf_def map_has_def sock_def)
  have i: "socket_id (sock ''s1'' ''u1'') = ''s1''" by (simp add: sock_def)
  from C5_amended [of sample_db "sock ''s1'' ''u1''" "''pB''" "''pA''" sample_joined 5] j d o
  show ?thesis unfolding i by simp
qed











subsection \<open>The broadcast room of a denied connection\<close>

lemma set_set_add: "set (set_add x xs) = insert x (set xs)"
  by (auto simp: set_add_def)

lemma room_members_join:
  "set (room_members (socket_join rooms i r') r) =
     (if r = r' then insert i (set (room_members rooms r)) else set (room_members rooms r))"
  by (auto simp: room_members_def socket_join_def update_conv' set_set_add split: option.splits)

lemma room_members_leave_all:
  "m \<in> set (room_members rooms r) \<Longrightarrow> m \<noteq> i \<Longrightarrow>
     m \<in> set (room_members (socket_leave_all rooms i) r)"
proof (induction rooms)
  case Nil
  then show ?case by (simp add: room_members_def)
next
  case (Cons e rooms)
  obtain r0 ms where e: "e = (r0, ms)" by (cases e)
  show ?case
  proof (cases "r0 = r")
    case True
    with Cons.prems e have "m \<in> set ms" by (simp add: room_members_def)
    then have "m \<in> set (removeAll i ms)" using Cons.prems by simp
    then have mr: "m \<in> set (removeAll i ms)" .
    have "removeAll i ms \<noteq> []"
    proof
      assume e0: "removeAll i ms = []"
      from mr show False unfolding e0 by simp
    qed
    then show ?thesis using e True mr
      by (simp add: room_members_def socket_leave_all_def)
  next
    case False
    with Cons.prems e have "m \<in> set (room_members rooms r)" by (simp add: room_members_def)
    from Cons.IH[OF this Cons.prems(2)] show ?thesis using e False
      by (simp add: room_members_def socket_leave_all_def)
  qed
qed

lemma handleUserJoin_rooms:
  "io_rooms (fst (handleUserJoin db now socket P s)) = io_rooms s \<or>
   io_rooms (fst (handleUserJoin db now socket P s)) = socket_join (io_rooms s) (socket_id socket) P"
  by (simp add: handleUserJoin_def Let_def split: option.splits)

lemma handleUserLeave_rooms: "io_rooms (fst (handleUserLeave socket s)) = io_rooms s"
  by (simp add: handleUserLeave_def Let_def split: option.splits prod.splits)

lemma handleCodeChange_rooms: "io_rooms (fst (handleCodeChange db now socket data s)) = io_rooms s"
  by (simp add: handleCodeChange_def Let_def debouncedSave_def queueOperation_def
      split: option.splits)

lemma handleCursorMove_rooms:
  "io_rooms (fst (handleCursorMove now socket payload s)) = io_rooms s"
  by (simp add: handleCursorMove_def Let_def split: option.splits)

lemma handleFileOperation_service: "snd (fst (handleFileOperation db now socket data s)) = s"
  by (simp add: handleFileOperation_def split: option.splits sum.splits prod.splits)

lemma fire_rooms: "io_rooms (fire s t) = io_rooms s"
  by (simp add: fire_def)

lemma foldl_fire_rooms: "io_rooms (foldl fire s ts) = io_rooms s"
  by (induction ts arbitrary: s) (simp_all add: fire_rooms)

lemma run_timers_rooms: "io_rooms (run_timers now s) = io_rooms s"
  by (simp add: run_timers_def foldl_fire_rooms)

lemma resumeSaveCallback_rooms:
  "io_rooms (snd (resumeSaveCallback now tid w)) = io_rooms (snd w)"
  by (cases w)
    (simp add: resumeSaveCallback_def Let_def
      split: option.splits sum.splits prod.splits save_stage.splits)

lemma step_keeps_member:
  assumes "m \<in> set (room_members (io_rooms (snd w)) r)"
    and "staysConnected m [(now, ev)]"
  shows "m \<in> set (room_members (io_rooms (snd (fst (step now ev w)))) r)"
proof -
  define db where "db = fst w"
  define s where "s = run_timers now (snd w)"
  have "io_rooms s = io_rooms (snd w)" by (simp add: s_def run_timers_rooms)
  with assms(1) have mem: "m \<in> set (room_members (io_rooms s) r)" by simp
  show ?thesis
  proof (cases ev)
    case (JoinProject socket projectId)
    define s0 where "s0 = s\<lparr>io_rooms := socket_join (io_rooms s) (socket_id socket) projectId\<rparr>"
    have m0: "m \<in> set (room_members (io_rooms s0) r)"
      using mem by (auto simp: s0_def room_members_join)
    then have "m \<in> set (room_members (io_rooms (fst (handleUserJoin db now socket projectId s0))) r)"
      using handleUserJoin_rooms[of db now socket projectId s0]
      by (auto simp: room_members_join)
    then show ?thesis using JoinProject
      by (auto simp: step_def on_join_project_def s0_def s_def db_def split: prod.splits)
  next
    case (CodeChange socket data)
    then show ?thesis using mem handleCodeChange_rooms[of db now socket data s]
      by (auto simp: step_def s_def db_def split: prod.splits)
  next
    case (CursorMove socket payload)
    then show ?thesis using mem handleCursorMove_rooms[of now socket payload s]
      by (auto simp: step_def s_def db_def split: prod.splits)
  next
    case (FileOperation socket data)
    then show ?thesis using mem handleFileOperation_service[of db now socket data s]
      by (simp add: step_def s_def db_def)
  next
    case (Disconnect socket)
    with assms(2) have "socket_id socket \<noteq> m" by simp
    then have "m \<in> set (room_members (socket_leave_all (io_rooms s) (socket_id socket)) r)"
      using mem by (intro room_members_leave_all) auto
    then show ?thesis using Disconnect
        handleUserLeave_rooms[of socket "s\<lparr>io_rooms := socket_leave_all (io_rooms s) (socket_id socket)\<rparr>"]
      by (auto simp: step_def on_disconnect_def s_def db_def split: prod.splits)
  next
    case (DatabaseReply tid)
    then show ?thesis using mem resumeSaveCallback_rooms[of now tid "(db, s)"]
      by (simp add: step_def s_def db_def)
  qed
qed

lemma staysConnected_Cons:
  "staysConnected m ((now, ev) # evs) = (staysConnected m [(now, ev)] \<and> staysConnected m evs)"
  by (cases ev) simp_all

lemma run_keeps_member:
  assumes "m \<in> set (room_members (io_rooms (snd w)) r)" and "staysConnected m evs"
  shows "m \<in> set (room_members (io_rooms (snd (run evs w))) r)"
  using assms
proof (induction evs arbitrary: w)
  case Nil
  then show ?case by simp
next
  case (Cons e evs)
  obtain now ev where e: "e = (now, ev)" by (cases e)
  from Cons.prems(2) e have sc: "staysConnected m [(now, ev)]" "staysConnected m evs"
    using staysConnected_Cons[of m now ev evs] by simp_all
  from step_keeps_member[OF Cons.prems(1) sc(1)] Cons.IH sc(2) e show ?case by simp
qed

lemma denied_join:
  assumes "accessDenied db d P"
  shows "\<exists>msg. handleUserJoin db now d P s = (s, [(socket_id d, collaboration_error msg)])"
  using assms
  by (auto simp: accessDenied_def handleUserJoin_def socket_emit_def split: option.splits)

lemma step_CursorMove_store: "fst (fst (step now (CursorMove socket payload) w)) = fst w"
  by (simp add: step_def split: prod.splits)

text \<open>
  C2. A connection \<open>d\<close> issues join-project for a project it is denied access to (the
  project is missing, or the access check fails; an unauthenticated connection is
  covered). The handler delivers one event, a collaboration-error to \<open>d\<close>, and creates no
  Session, but \<open>d\<close> is in the broadcast room of the project. After any further events
  among which \<open>d\<close> does not disconnect, a cursor-move for the project by another
  connection is delivered to \<open>d\<close>, and so is every code-change for the project by
  another connection that passes the checks of its handler.
\<close>
theorem C2_denied_join_receives_broadcasts:
  assumes "accessDenied db d P"
    and "run evs (db, fst (on_join_project db now d P s)) = (db', s')"
    and "staysConnected (socket_id d) evs"
    and "socket_id a \<noteq> socket_id d"
  shows "(\<exists>msg. snd (on_join_project db now d P s) = [(socket_id d, collaboration_error msg)])
       \<and> activeUsers (fst (on_join_project db now d P s)) = activeUsers s
       \<and> socket_id d \<in> set (room_members (io_rooms (fst (on_join_project db now d P s))) P)
       \<and> (cm_projectId cm = Some P \<longrightarrow>
            (socket_id d, cursor_move (socket_id a) (socket_userId a) (cm_filePath cm)
               (cm_position cm) (cm_selection cm))
            \<in> set (snd (handleCursorMove t a (Some cm) s')))
       \<and> (cc_projectId cc = Some P \<and> changeAccepted db' a cc \<longrightarrow>
            (\<exists>e. (socket_id d, code_change e) \<in> set (snd (handleCodeChange db' t a cc s'))))"
proof -
  define s0 where "s0 = s\<lparr>io_rooms := socket_join (io_rooms s) (socket_id d) P\<rparr>"
  obtain msg where j: "handleUserJoin db now d P s0 = (s0, [(socket_id d, collaboration_error msg)])"
    using denied_join[OF assms(1)] by blast
  then have oj: "on_join_project db now d P s = (s0, [(socket_id d, collaboration_error msg)])"
    by (simp add: on_join_project_def s0_def)
  have m0: "socket_id d \<in> set (room_members (io_rooms s0) P)"
    by (simp add: s0_def room_members_join)
  have "socket_id d \<in> set (room_members (io_rooms (snd (run evs (db, s0)))) P)"
    using m0 assms(3) by (intro run_keeps_member) simp_all
  then have mem: "socket_id d \<in> set (room_members (io_rooms s') P)"
    using assms(2) oj by simp
  have cm: "(socket_id d, cursor_move (socket_id a) (socket_userId a) (cm_filePath cm)
               (cm_position cm) (cm_selection cm))
            \<in> set (snd (handleCursorMove t a (Some cm) s'))" if "cm_projectId cm = Some P"
    using that mem assms(4) by (simp add: handleCursorMove_def Let_def socket_to_emit_def)
  have cc: "\<exists>e. (socket_id d, code_change e) \<in> set (snd (handleCodeChange db' t a cc s'))"
    if "cc_projectId cc = Some P \<and> changeAccepted db' a cc"
    using that mem assms(4)
    by (force simp: handleCodeChange_def Let_def socket_to_emit_def changeAccepted_def truthy_def
        findProject_def split: option.splits)
  show ?thesis using oj m0 cm cc by (simp add: s0_def)
qed

text \<open>C2 at the sample state: \<open>s3\<close> of user \<open>u3\<close> is denied, \<open>s2\<close> moves its cursor, then \<open>s1\<close> moves and edits.\<close>

theorem C2_witness:
  "(''s3'', cursor_move ''s1'' (Some ''u1'') None (Some (1, 2)) None)
     \<in> set (snd (handleCursorMove 5 (sock ''s1'' ''u1'') (Some (sample_move (Some ''pA'') None))
          (snd (run [(4, CursorMove (sock ''s2'' ''u2'') (Some (sample_move (Some ''pA'') None)))]
             (sample_db, fst (on_join_project sample_db 3 (sock ''s3'' ''u3'') ''pA'' sample_state))))))
   \<and> (\<exists>e. (''s3'', code_change e)
     \<in> set (snd (handleCodeChange sample_db 5 (sock ''s1'' ''u1'') (sample_change (sample_insert 1 1) 6)
          (snd (run [(4, CursorMove (sock ''s2'' ''u2'') (Some (sample_move (Some ''pA'') None)))]
             (sample_db, fst (on_join_project sample_db 3 (sock ''s3'' ''u3'') ''pA'' sample_state)))))))"
proof -
  define w where "w = run [(4, CursorMove (sock ''s2'' ''u2'') (Some (sample_move (Some ''pA'') None)))]
             (sample_db, fst (on_join_project sample_db 3 (sock ''s3'' ''u3'') ''pA'' sample_state))"
  have den: "accessDenied sample_db (sock ''s3'' ''u3'') ''pA''"
    by (simp add: accessDenied_def sample_defs canUserAccess_def getCollaboratorRole_def)
  have "fst w = sample_db"
    unfolding w_def
    using step_CursorMove_store [where w = "(sample_db,
      fst (on_join_project sample_db 3 (sock ''s3'' ''u3'') ''pA'' sample_state))"]
    by simp
  then have r: "run [(4, CursorMove (sock ''s2'' ''u2'') (Some (sample_move (Some ''pA'') None)))]
             (sample_db, fst (on_join_project sample_db 3 (sock ''s3'' ''u3'') ''pA'' sample_state))
           = (sample_db, snd w)"
    unfolding w_def[symmetric] by (metis prod.collapse)
  have sc: "staysConnected (socket_id (sock ''s3'' ''u3''))
              [(4, CursorMove (sock ''s2'' ''u2'') (Some (sample_move (Some ''pA'') None)))]"
    by simp
  have ne: "socket_id (sock ''s1'' ''u1'') \<noteq> socket_id (sock ''s3'' ''u3'')"
    by (simp add: sock_def)
  have cm: "cm_projectId (sample_move (Some ''pA'') None) = Some ''pA''"
    by (simp add: sample_move_def)
  have cc: "cc_projectId (sample_change (sample_insert 1 1) 6) = Some ''pA''
          \<and> changeAccepted sample_db (sock ''s1'' ''u1'') (sample_change (sample_insert 1 1) 6)"
    by (simp add: changeAccepted_def sample_defs truthy_def findProject_def canUserAccess_def)
  from C2_denied_join_receives_broadcasts [OF den r sc ne, where cm = "sample_move (Some ''pA'') None" and t = 5
      and cc = "sample_change (sample_insert 1 1) 6"] cm cc
  show ?thesis unfolding w_def by (simp add: sock_def sample_move_def)
qed

text \<open>
  C8. The claim: in a Room with N Sessions a cursor-move of a member gives exactly N - 1
  notifications, one to each other Session. The broadcast goes to the room of the
  Socket.IO server, which the connection handler lets a connection join before the access
  check: after \<open>s3\<close> was denied, the Room of \<open>pA\<close> has the two Sessions \<open>s1\<close> and \<open>s2\<close>, and
  a cursor-move of \<open>s1\<close> is delivered twice, to \<open>s2\<close> and to \<open>s3\<close>.
\<close>
theorem C8_denied_connection_is_notified:
  "sessionCount (fst (on_join_project sample_db 3 (sock ''s3'' ''u3'') ''pA'' sample_state)) ''pA'' = 2
  \<and> snd (handleCursorMove 4 (sock ''s1'' ''u1'')
          (Some (sample_move (Some ''pA'') (Some ''src/a.js'')))
     (fst (on_join_project sample_db 3 (sock ''s3'' ''u3'') ''pA'' sample_state)))
    = [(''s2'', cursor_move ''s1'' (Some ''u1'') (Some ''src/a.js'') (Some (1, 2)) None),
       (''s3'', cursor_move ''s1'' (Some ''u1'') (Some ''src/a.js'') (Some (1, 2)) None)]"
  unfolding denied_eval
  by (simp add: sample_state_eval sessionCount_def projectUsersOf_def handleCursorMove_def Let_def
      socket_to_emit_def room_members_def sample_defs)

text \<open>
  Where the broadcast room of the project holds exactly the connections with a Session
  in its Room, a cursor-move of a member is delivered to the other Sessions, one
  notification each, and the member's cursor and last activity are updated.
\<close>

lemma length_filter_others:
  assumes "distinct xs" "a \<in> set xs"
  shows "length (filter (\<lambda>x. x \<noteq> a) xs) = length xs - 1"
proof -
  have "filter (\<lambda>x. x \<noteq> a) xs = removeAll a xs"
    by (induction xs) auto
  also have "\<dots> = remove1 a xs" using assms(1) by (simp add: distinct_remove1_removeAll)
  finally show ?thesis using assms(2) by (simp add: length_remove1)
qed

lemma cursor_move_synced_room:
  assumes room: "map_of (activeUsers s) P = Some us"
    and member: "map_of us (socket_id socket) = Some u"
    and keys: "distinct (map fst us)"
    and synced: "room_members (io_rooms s) P = map fst us"
    and target: "cm_projectId cm = Some P"
  shows "map fst (snd (handleCursorMove now socket (Some cm) s)) =
           filter (\<lambda>i. i \<noteq> socket_id socket) (map fst us)
       \<and> length (snd (handleCursorMove now socket (Some cm) s)) = length us - 1
       \<and> map_of (projectUsersOf (fst (handleCursorMove now socket (Some cm) s)) P) (socket_id socket) =
           Some (u\<lparr>ses_lastActivity := now,
                   ses_cursor := Some \<lparr>cur_filePath = cm_filePath cm,
                                        cur_position = cm_position cm,
                                        cur_selection = cm_selection cm\<rparr>\<rparr>)"
proof -
  have out: "snd (handleCursorMove now socket (Some cm) s) =
      map (\<lambda>m. (m, cursor_move (socket_id socket) (socket_userId socket) (cm_filePath cm)
                     (cm_position cm) (cm_selection cm)))
        (filter (\<lambda>i. i \<noteq> socket_id socket) (map fst us))"
    using target synced by (simp add: handleCursorMove_def Let_def socket_to_emit_def)
  have "socket_id socket \<in> set (map fst us)"
    using member by (metis map_of_SomeD fst_conv image_eqI set_map)
  then have "length (filter (\<lambda>i. i \<noteq> socket_id socket) (map fst us)) = length us - 1"
    using length_filter_others[OF keys] by simp
  moreover have "map_of (projectUsersOf (fst (handleCursorMove now socket (Some cm) s)) P) (socket_id socket) =
           Some (u\<lparr>ses_lastActivity := now,
                   ses_cursor := Some \<lparr>cur_filePath = cm_filePath cm,
                                        cur_position = cm_position cm,
                                        cur_selection = cm_selection cm\<rparr>\<rparr>)"
    using target room member
    by (simp add: handleCursorMove_def Let_def projectUsersOf_def update_conv')
  ultimately show ?thesis using out by (simp add: comp_def)
qed

subsection \<open>Events with missing fields, and creating a file that exists\<close>

lemma findFile_absent_path: "findFile p None = None"
  by (simp add: findFile_def find_None_iff)

lemma applyFileOperation_no_path:
  assumes "fo_filePath data = None"
  shows "\<exists>e. applyFileOperation project data now = Inl e"
  using assms
  by (simp add: applyFileOperation_def addFile_def deleteFile_def renameFile_def
      findFile_absent_path)

lemma handleFileOperation_missing:
  assumes "fo_projectId data = None \<or> fo_filePath data = None"
  shows "\<exists>msg. handleFileOperation db now socket data s =
           ((db, s), [(socket_id socket, collaboration_error msg)])"
proof (cases "fo_projectId data")
  case None
  then show ?thesis by (simp add: handleFileOperation_def socket_emit_def)
next
  case (Some projectId)
  with assms have np: "fo_filePath data = None" by simp
  show ?thesis
  proof (cases "projects db projectId")
    case None
    then show ?thesis using Some by (simp add: handleFileOperation_def socket_emit_def)
  next
    case (Some project)
    obtain e where "applyFileOperation project data now = Inl e"
      using applyFileOperation_no_path[OF np] by blast
    then show ?thesis using Some \<open>fo_projectId data = Some projectId\<close>
      by (simp add: handleFileOperation_def socket_emit_def)
  qed
qed

lemma handleCodeChange_missing:
  assumes "\<not> truthy (cc_projectId data) \<or> \<not> truthy (cc_filePath data)"
  shows "handleCodeChange db now socket data s =
           (s, [(socket_id socket, collaboration_error ''Missing project or file information'')])"
  using assms
  by (auto simp: handleCodeChange_def Let_def truthy_def socket_emit_def split: option.splits)

text \<open>
  C7. The claim: a code-change, cursor-move or file-operation that lacks a required
  field such as the project id or the file path gets an error event, changes no state
  and is not broadcast. \<^verbatim>\<open>handleCodeChange\<close> has the guard and \<^verbatim>\<open>handleFileOperation\<close>
  fails through its permission check or the exception thrown (the two lemmas above);
  \<^verbatim>\<open>handleCursorMove\<close> checks nothing. A cursor-move of \<open>s1\<close> for \<open>pA\<close> without a
  file path gets no error event, is broadcast to \<open>s2\<close>, and the cursor is recorded; a
  cursor-move without any payload changes nothing and gets no error event either.
\<close>

theorem C7_cursor_move_without_file_path:
  "snd (handleCursorMove 9 (sock ''s1'' ''u1'') (Some (sample_move (Some ''pA'') None))
          sample_state) =
     [(''s2'', cursor_move ''s1'' (Some ''u1'') None (Some (1, 2)) None)]
   \<and> cursors sample_state = []
   \<and> cursors (fst (handleCursorMove 9 (sock ''s1'' ''u1'') (Some (sample_move (Some ''pA'') None))
                     sample_state)) =
       [(''s1'', \<lparr>ce_filePath = None, ce_position = Some (1, 2), ce_selection = None,
                  ce_timestamp = 9\<rparr>)]
   \<and> handleCursorMove 9 (sock ''s1'' ''u1'') None sample_state = (sample_state, [])"
  unfolding sample_state_eval
  by (simp add: handleCursorMove_def Let_def socket_to_emit_def room_members_def sample_defs)

text \<open>
  C10. A file-operation of kind create for a path that the project has already: the
  handler delivers one event, a collaboration-error to the requesting connection, and
  returns the store and the service as they were (no file added, no activity recorded, no
  save); with write access the error is that of \<^verbatim>\<open>addFile\<close>.
\<close>
theorem C10_create_existing_path:
  assumes "fo_operation data = Some ''create''"
    and "fo_projectId data = Some P"
    and "projects db P = Some project"
    and "findFile project (fo_filePath data) = Some existing"
  shows "(\<exists>msg. handleFileOperation db now socket data s =
            ((db, s), [(socket_id socket, collaboration_error msg)]))
       \<and> (canUserAccess project (socket_userId socket) ''write'' \<longrightarrow>
            handleFileOperation db now socket data s =
              ((db, s), [(socket_id socket,
                          collaboration_error ''File operation failed: File already exists'')]))"
  using assms
  by (simp add: handleFileOperation_def applyFileOperation_def addFile_def socket_emit_def)

text \<open>C10 at the sample project, whose file \<open>src/a.js\<close> exists.\<close>

theorem C10_witness:
  "handleFileOperation sample_db 9 (sock ''s1'' ''u1'')
     (sample_create (Some ''pA'') (Some ''src/a.js'')) sample_state =
   ((sample_db, sample_state),
    [(''s1'', collaboration_error ''File operation failed: File already exists'')])"
proof -
  have a: "fo_operation (sample_create (Some ''pA'') (Some ''src/a.js'')) = Some ''create''"
    and b: "fo_projectId (sample_create (Some ''pA'') (Some ''src/a.js'')) = Some ''pA''"
    by (simp_all add: sample_create_def)
  have c: "projects sample_db ''pA'' = Some sample_project" by (simp add: sample_db_def)
  have d: "findFile sample_project (fo_filePath (sample_create (Some ''pA'') (Some ''src/a.js'')))
             = Some (hd (p_files sample_project))"
    by (simp add: findFile_def sample_project_def sample_create_def)
  have e: "canUserAccess sample_project (socket_userId (sock ''s1'' ''u1'')) ''write''"
    by (simp add: canUserAccess_def sample_project_def sock_def)
  from C10_create_existing_path [OF a b c d, of 9 "sock ''s1'' ''u1''" sample_state] e
  show ?thesis by (simp add: sock_def)
qed

subsection \<open>The debounced save\<close>

lemma debouncedSave_tracked:
  assumes "timersTracked s"
  shows "timersTracked (debouncedSave now P F c s)
       \<and> length (pendingFor (saveKey P F) (debouncedSave now P F c s)) = 1"
proof (cases "saveTimeouts s")
  case None
  with assms have "pending_timers s = []"
    by (cases "pending_timers s") (simp_all add: timersTracked_def)
  with None show ?thesis
    by (simp add: debouncedSave_def Let_def timersTracked_def pendingFor_def)
next
  case (Some m)
  from assms Some have reg:
    "\<forall>t \<in> set (pending_timers s). map_of m (t_key t) = Some (t_id t) \<and> t_id t < next_timer_id s"
    by (simp add: timersTracked_def list_all_iff)
  from assms have d: "distinct (map t_id (pending_timers s))" "distinct (map t_key (pending_timers s))"
    by (simp_all add: timersTracked_def)
  define kept where "kept =
     (case map_of m (saveKey P F) of None \<Rightarrow> pending_timers s
      | Some tid \<Rightarrow> clearTimeout tid (pending_timers s))"
  have sub: "set kept \<subseteq> set (pending_timers s)"
    by (auto simp: kept_def clearTimeout_def split: option.splits)
  have nokey: "\<forall>t \<in> set kept. t_key t \<noteq> saveKey P F"
    using reg by (auto simp: kept_def clearTimeout_def split: option.splits)
  have dk: "distinct (map t_id kept)" "distinct (map t_key kept)"
    using d by (auto simp: kept_def clearTimeout_def distinct_map_filter split: option.splits)
  have res: "pending_timers (debouncedSave now P F c s) =
        kept @ [\<lparr>t_id = next_timer_id s, t_due = now + debounceDelay, t_key = saveKey P F,
             t_projectId = P, t_filePath = F, t_content = c\<rparr>]"
    "saveTimeouts (debouncedSave now P F c s) = Some (AList.update (saveKey P F) (next_timer_id s) m)"
    "next_timer_id (debouncedSave now P F c s) = next_timer_id s + 1"
    using Some by (simp_all add: debouncedSave_def Let_def kept_def)
  have keptreg: "\<forall>t \<in> set kept. map_of m (t_key t) = Some (t_id t) \<and> t_id t < next_timer_id s"
    using sub reg by blast
  then have fresh: "next_timer_id s \<notin> t_id ` set kept" by auto
  have "list_all (\<lambda>t. map_of (AList.update (saveKey P F) (next_timer_id s) m) (t_key t) = Some (t_id t)
                      \<and> t_id t < next_timer_id s + 1) kept"
    using keptreg nokey by (auto simp: list_all_iff update_conv')
  then have "timersTracked (debouncedSave now P F c s)"
    unfolding timersTracked_def res
    using dk nokey fresh
    by (auto simp: update_conv' image_iff)
  moreover have "pendingFor (saveKey P F) (debouncedSave now P F c s) =
       [\<lparr>t_id = next_timer_id s, t_due = now + debounceDelay, t_key = saveKey P F,
             t_projectId = P, t_filePath = F, t_content = c\<rparr>]"
    unfolding pendingFor_def res using nokey by (simp add: filter_empty_conv)
  ultimately show ?thesis by simp
qed

lemma tracked_at_most_one:
  assumes "timersTracked s"
  shows "length (pendingFor key s) \<le> 1"
proof -
  from assms have "distinct (map t_key (pending_timers s))" by (simp add: timersTracked_def)
  then have "distinct (map t_key (pendingFor key s))"
    by (simp add: pendingFor_def distinct_map_filter)
  moreover have "set (map t_key (pendingFor key s)) \<subseteq> {key}"
    by (auto simp: pendingFor_def)
  ultimately have "length (map t_key (pendingFor key s)) \<le> card {key}"
    by (metis card_mono distinct_card finite.emptyI finite.insertI)
  then show ?thesis by simp
qed

lemma run_timers_none: "pending_timers s = [] \<Longrightarrow> run_timers now s = s"
  by (simp add: run_timers_def)

lemma run_timers_not_due:
  assumes "list_all (\<lambda>t. now < t_due t) (pending_timers s)"
  shows "run_timers now s = s"
proof -
  from assms have "filter (\<lambda>t. t_due t \<le> now) (pending_timers s) = []"
    by (auto simp: list_all_iff filter_empty_conv)
  then show ?thesis by (simp add: run_timers_def)
qed

lemma run_timers_single_due:
  assumes "pending_timers s = [t]" "t_due t \<le> now"
  shows "run_timers now s =
           s\<lparr>pending_timers := [], suspended_saves := suspended_saves s @ [(t, AwaitingFind)]\<rparr>"
  using assms by (simp add: run_timers_def fire_def clearTimeout_def)

lemma debouncedSave_single:
  assumes "pending_timers s = [] \<or>
           (\<exists>t. pending_timers s = [t] \<and>
                (\<exists>m. saveTimeouts s = Some m \<and> map_of m (saveKey P F) = Some (t_id t)))"
  shows "pending_timers (debouncedSave now P F c s) =
           [\<lparr>t_id = next_timer_id s, t_due = now + debounceDelay, t_key = saveKey P F,
             t_projectId = P, t_filePath = F, t_content = c\<rparr>]
         \<and> (\<exists>m. saveTimeouts (debouncedSave now P F c s) = Some m \<and>
                 map_of m (saveKey P F) = Some (next_timer_id s))
         \<and> next_timer_id (debouncedSave now P F c s) = next_timer_id s + 1
         \<and> suspended_saves (debouncedSave now P F c s) = suspended_saves s"
  using assms
  by (auto simp: debouncedSave_def Let_def clearTimeout_def update_conv' split: option.splits)

text \<open>
  Three calls for one file less than the delay apart, on a service with no timer pending:
  one timer is pending afterwards, that of the third call.
\<close>

lemma three_calls:
  assumes quiet: "pending_timers s = []"
    and window: "t1 \<le> t2" "t2 \<le> t3" "t3 < t1 + debounceDelay"
  shows "pending_timers (debounceTrace P F [(t1, c1), (t2, c2), (t3, c3)] s) =
           [\<lparr>t_id = next_timer_id s + 2, t_due = t3 + debounceDelay, t_key = saveKey P F,
             t_projectId = P, t_filePath = F, t_content = c3\<rparr>]
       \<and> suspended_saves (debounceTrace P F [(t1, c1), (t2, c2), (t3, c3)] s) = suspended_saves s
       \<and> (\<exists>m. saveTimeouts (debounceTrace P F [(t1, c1), (t2, c2), (t3, c3)] s) = Some m \<and>
               map_of m (saveKey P F) = Some (next_timer_id s + 2))"
proof -
  have r1: "run_timers t1 s = s" using quiet by (simp add: run_timers_none)
  define s1 where "s1 = debouncedSave t1 P F c1 s"
  have p1: "pending_timers s1 =
           [\<lparr>t_id = next_timer_id s, t_due = t1 + debounceDelay, t_key = saveKey P F,
             t_projectId = P, t_filePath = F, t_content = c1\<rparr>]"
    and m1: "\<exists>m. saveTimeouts s1 = Some m \<and> map_of m (saveKey P F) = Some (next_timer_id s)"
    and n1: "next_timer_id s1 = next_timer_id s + 1"
    and u1: "suspended_saves s1 = suspended_saves s"
    unfolding s1_def using debouncedSave_single[of s P F t1 c1] quiet by simp_all
  have r2: "run_timers t2 s1 = s1"
    using p1 window by (intro run_timers_not_due) simp
  define s2 where "s2 = debouncedSave t2 P F c2 s1"
  have p2: "pending_timers s2 =
           [\<lparr>t_id = next_timer_id s1, t_due = t2 + debounceDelay, t_key = saveKey P F,
             t_projectId = P, t_filePath = F, t_content = c2\<rparr>]"
    and m2: "\<exists>m. saveTimeouts s2 = Some m \<and> map_of m (saveKey P F) = Some (next_timer_id s1)"
    and n2: "next_timer_id s2 = next_timer_id s1 + 1"
    and u2: "suspended_saves s2 = suspended_saves s1"
    unfolding s2_def using debouncedSave_single[of s1 P F t2 c2] p1 m1 by auto
  have r3: "run_timers t3 s2 = s2"
    using p2 window by (intro run_timers_not_due) simp
  define s3 where "s3 = debouncedSave t3 P F c3 s2"
  have p3: "pending_timers s3 =
           [\<lparr>t_id = next_timer_id s2, t_due = t3 + debounceDelay, t_key = saveKey P F,
             t_projectId = P, t_filePath = F, t_content = c3\<rparr>]"
    and m3: "\<exists>m. saveTimeouts s3 = Some m \<and> map_of m (saveKey P F) = Some (next_timer_id s2)"
    and u3: "suspended_saves s3 = suspended_saves s2"
    unfolding s3_def using debouncedSave_single[of s2 P F t3 c3] p2 m2 by auto
  have "debounceTrace P F [(t1, c1), (t2, c2), (t3, c3)] s = s3"
    by (simp add: r1 r2 r3 s1_def[symmetric] s2_def[symmetric] s3_def[symmetric])
  then show ?thesis using p3 m3 u3 u2 u1 n1 n2 by simp
qed

text \<open>
  The author \<^verbatim>\<open>'system'\<close> is no ObjectId: the document \<^verbatim>\<open>updateFile\<close> returns for it is
  marked invalid, its save is rejected, and a resumed callback never writes.
\<close>

lemma system_is_no_ObjectId: "castObjectId ''system'' = None"
  by (simp add: castObjectId_def)

lemma updateFile_system_invalid:
  assumes "updateFile p F c ''system'' now = Inr (p', f')"
  shows "\<exists>e. save db i p' = Inl e"
proof -
  from assms have "p_invalid p' \<noteq> []"
    by (auto simp: updateFile_def Let_def system_is_no_ObjectId split: option.splits)
  then show ?thesis by (simp add: save_def validate_def)
qed

lemma resumeSaveCallback_writes_nothing: "fst (resumeSaveCallback now tid w) = fst w"
proof (cases w)
  case (Pair db s)
  have "save db i p' \<noteq> Inr db'"
    if "updateFile p F c ''system'' now = Inr (p', f')" for p F c p' f' i db'
    using updateFile_system_invalid[OF that, of db i] by auto
  then show ?thesis using Pair
    by (auto simp: resumeSaveCallback_def Let_def
        split: option.splits sum.splits prod.splits save_stage.splits)
qed

lemma resume_rejected:
  assumes "suspended_saves s = [(t, AwaitingFind)]"
    and "projects db (t_projectId t) = Some project"
    and "findFile project (Some (t_filePath t)) = Some f"
    and "t_content t = Some c"
  shows "resumeSaveCallback now (t_id t) (db, s) = (db, s\<lparr>suspended_saves := []\<rparr>)"
proof -
  obtain p' f' where u: "updateFile project (t_filePath t) (Some c) ''system'' now = Inr (p', f')"
    using assms(3) by (simp add: updateFile_def Let_def)
  obtain e where "save db (t_projectId t) p' = Inl e"
    using updateFile_system_invalid[OF u] by blast
  then show ?thesis using assms u
    by (simp add: resumeSaveCallback_def Let_def)
qed

text \<open>
  The callback deletes the key only after an await. For a project that is not in the
  store: a timer fires, a call arrives before the database has replied, the resumed
  callback deletes the key, which by then is that of the newer timer, and the next call
  cancels nothing: two timers are pending for one key.
\<close>

lemma late_delete_leaves_two_timers:
  "map t_id
     (pendingFor (saveKey ''pX'' ''f'')
        (debouncedSave 2003 ''pX'' ''f'' (Some ''c'')
           (snd (resumeSaveCallback 2002 0
                   (sample_db,
                    debouncedSave 2001 ''pX'' ''f'' (Some ''b'')
                      (run_timers 2000
                         (debouncedSave 0 ''pX'' ''f'' (Some ''a'') constructor))))))) = [1, 2]"
proof -
  define k where "k = saveKey ''pX'' ''f''"
  define t0 where "t0 = \<lparr>t_id = 0, t_due = 2000, t_key = k, t_projectId = ''pX'',
    t_filePath = ''f'', t_content = Some ''a''\<rparr>"
  define t1 where "t1 = \<lparr>t_id = 1, t_due = 4001, t_key = k, t_projectId = ''pX'',
    t_filePath = ''f'', t_content = Some ''b''\<rparr>"
  define t2 where "t2 = \<lparr>t_id = 2, t_due = 4003, t_key = k, t_projectId = ''pX'',
    t_filePath = ''f'', t_content = Some ''c''\<rparr>"
  have s1: "debouncedSave 0 ''pX'' ''f'' (Some ''a'') constructor =
      constructor\<lparr>saveTimeouts := Some [(k, 0)], pending_timers := [t0], next_timer_id := 1\<rparr>"
    by (simp add: debouncedSave_def constructor_def Let_def k_def t0_def debounceDelay_def)
  have s2: "run_timers 2000
      (constructor\<lparr>saveTimeouts := Some [(k, 0)], pending_timers := [t0], next_timer_id := 1\<rparr>) =
      constructor\<lparr>saveTimeouts := Some [(k, 0)], pending_timers := [], next_timer_id := 1,
        suspended_saves := [(t0, AwaitingFind)]\<rparr>"
    by (simp add: run_timers_def fire_def clearTimeout_def constructor_def t0_def)
  have s3: "debouncedSave 2001 ''pX'' ''f'' (Some ''b'')
      (constructor\<lparr>saveTimeouts := Some [(k, 0)], pending_timers := [], next_timer_id := 1,
        suspended_saves := [(t0, AwaitingFind)]\<rparr>) =
      constructor\<lparr>saveTimeouts := Some [(k, 1)], pending_timers := [t1], next_timer_id := 2,
        suspended_saves := [(t0, AwaitingFind)]\<rparr>"
    by (simp add: debouncedSave_def constructor_def Let_def k_def t1_def debounceDelay_def
        clearTimeout_def)
  have s4: "resumeSaveCallback 2002 0
      (sample_db,
       constructor\<lparr>saveTimeouts := Some [(k, 1)], pending_timers := [t1], next_timer_id := 2,
        suspended_saves := [(t0, AwaitingFind)]\<rparr>) =
      (sample_db,
       constructor\<lparr>saveTimeouts := Some [], pending_timers := [t1], next_timer_id := 2,
        suspended_saves := []\<rparr>)"
    by (simp add: resumeSaveCallback_def Let_def constructor_def t0_def sample_db_def)
  have s5: "debouncedSave 2003 ''pX'' ''f'' (Some ''c'')
      (constructor\<lparr>saveTimeouts := Some [], pending_timers := [t1], next_timer_id := 2,
        suspended_saves := []\<rparr>) =
      constructor\<lparr>saveTimeouts := Some [(k, 2)], pending_timers := [t1, t2], next_timer_id := 3,
        suspended_saves := []\<rparr>"
    by (simp add: debouncedSave_def constructor_def Let_def k_def t2_def debounceDelay_def)
  show ?thesis
    unfolding s1 s2 s3 s4 snd_conv s5
    by (simp add: pendingFor_def constructor_def k_def t1_def t2_def)
qed

text \<open>
  C9. The claim: three calls of the debounced save within the window of 2 seconds for
  one key give exactly one write to the project store, with the content of the third
  call and a system-attributed author. On a fresh service, with calls at 0, 500 and
  1500 ms for the file \<open>src/a.js\<close> of project \<open>pA\<close>, which exists: one timer is pending
  after the calls and fires at 3500 ms, its callback carries the third content, and when
  the database has replied the callback has finished, the store is what it was and its
  log of saves is empty. The callback passes \<^verbatim>\<open>'system'\<close> as the author, the schema types
  \<^verbatim>\<open>modifiedBy\<close> as ObjectId, and the save is rejected, caught and logged; the key stays
  in \<^verbatim>\<open>saveTimeouts\<close>.
\<close>

theorem C9_debounced_save_is_rejected:
  "map (\<lambda>t. (t_id t, t_due t, t_content t))
     (pending_timers
        (debounceTrace ''pA'' ''src/a.js'' [(0, Some ''a''), (500, Some ''b''), (1500, Some ''let z'')]
           constructor)) = [(2, 3500, Some ''let z'')]
   \<and> map (\<lambda>(t, stage). (t_id t, t_content t, stage))
       (suspended_saves
          (run_timers 3500
             (debounceTrace ''pA'' ''src/a.js''
                [(0, Some ''a''), (500, Some ''b''), (1500, Some ''let z'')] constructor))) =
       [(2, Some ''let z'', AwaitingFind)]
   \<and> fst (resumeSaveCallback 3500 2
            (sample_db,
             run_timers 3500
               (debounceTrace ''pA'' ''src/a.js''
                  [(0, Some ''a''), (500, Some ''b''), (1500, Some ''let z'')] constructor))) =
       sample_db
   \<and> save_log sample_db = []
   \<and> pending_timers (snd (resumeSaveCallback 3500 2
            (sample_db,
             run_timers 3500
               (debounceTrace ''pA'' ''src/a.js''
                  [(0, Some ''a''), (500, Some ''b''), (1500, Some ''let z'')] constructor)))) = []
   \<and> suspended_saves (snd (resumeSaveCallback 3500 2
            (sample_db,
             run_timers 3500
               (debounceTrace ''pA'' ''src/a.js''
                  [(0, Some ''a''), (500, Some ''b''), (1500, Some ''let z'')] constructor)))) = []
   \<and> map_option (\<lambda>m. map_of m (saveKey ''pA'' ''src/a.js''))
       (saveTimeouts (snd (resumeSaveCallback 3500 2
            (sample_db,
             run_timers 3500
               (debounceTrace ''pA'' ''src/a.js''
                  [(0, Some ''a''), (500, Some ''b''), (1500, Some ''let z'')] constructor))))) =
       Some (Some 2)"
proof -
  define s3 where "s3 = debounceTrace ''pA'' ''src/a.js''
    [(0, Some ''a''), (500, Some ''b''), (1500, Some ''let z'')] constructor"
  define t where "t = \<lparr>t_id = 2, t_due = 3500, t_key = saveKey ''pA'' ''src/a.js'',
    t_projectId = ''pA'', t_filePath = ''src/a.js'', t_content = Some ''let z''\<rparr>"
  have quiet: "pending_timers constructor = []" by (simp add: constructor_def)
  have window: "(0::int) \<le> 500" "(500::int) \<le> 1500" "(1500::int) < 0 + debounceDelay"
    by (simp_all add: debounceDelay_def)
  have fresh: "next_timer_id constructor = 0" "suspended_saves constructor = []"
    by (simp_all add: constructor_def)
  note calls = three_calls [OF quiet window, of "''pA''" "''src/a.js''" "Some ''a''" "Some ''b''"
      "Some ''let z''", unfolded s3_def[symmetric] fresh]
  have p3: "pending_timers s3 = [t]" and u3: "suspended_saves s3 = []"
    and m3: "\<exists>m. saveTimeouts s3 = Some m \<and> map_of m (saveKey ''pA'' ''src/a.js'') = Some 2"
    using calls by (auto simp: t_def debounceDelay_def numeral_2_eq_2)
  have fired: "run_timers 3500 s3 = s3\<lparr>pending_timers := [], suspended_saves := [(t, AwaitingFind)]\<rparr>"
    using run_timers_single_due[OF p3, of 3500] u3 by (simp add: t_def)
  have proj: "projects sample_db (t_projectId t) = Some sample_project"
    by (simp add: t_def sample_db_def)
  have found: "findFile sample_project (Some (t_filePath t)) = Some (hd (p_files sample_project))"
    by (simp add: t_def findFile_def sample_project_def)
  have resumed: "resumeSaveCallback 3500 2 (sample_db, run_timers 3500 s3) =
      (sample_db, s3\<lparr>pending_timers := [], suspended_saves := []\<rparr>)"
    using resume_rejected[of "s3\<lparr>pending_timers := [], suspended_saves := [(t, AwaitingFind)]\<rparr>"
        t sample_db sample_project "hd (p_files sample_project)" "''let z''" 3500] proj found
    by (simp add: fired t_def)
  show ?thesis
    unfolding s3_def[symmetric] resumed
    using p3 m3 by (auto simp: fired t_def sample_db_def)
qed

end
